theory Spec2Isabelle
  imports Complex_Main "HOL-Library.Product_Lexorder" "HOL-Library.Multiset"
begin

section \<open>Data model of the attendance page\<close>

text \<open>
  The development embeds \<^verbatim>\<open>src/pages/AttendancePage.tsx\<close>: the three queries of
  \<^verbatim>\<open>fetchAttendance\<close>, the handlers \<^verbatim>\<open>handlePunchIn\<close> and \<^verbatim>\<open>handlePunchOut\<close>,
  \<^verbatim>\<open>getStatus\<close>, and the derived statistics of the render function.

  Conventions of the embedding.
  \<^item> A timestamp column holds ISO text; it is modelled by the instant it denotes, an
    integer number of milliseconds since the epoch (what \<^verbatim>\<open>new Date(text).getTime()\<close>
    returns). Such text is never empty, so it is truthy in JavaScript.
  \<^item> A calendar date (\<^verbatim>\<open>yyyy-MM-dd\<close>) is a triple (year, month, day), ordered
    lexicographically, which is the chronological order.
  \<^item> A JavaScript \<^verbatim>\<open>number\<close> is an IEEE-754 binary64 value. It is modelled by the real
    number it denotes, and every arithmetic operation of the source rounds its exact
    result to the nearest binary64 value, ties to even (\<open>binary64\<close> below). Infinities
    and NaN are not modelled: no quantity of this page comes near the overflow threshold,
    and no divisor is zero.
  \<^item> The hosted record store is an external collaborator. It is modelled as the list of
    its rows; a call to it either fails with an error injected by the environment
    (\<open>fault\<close>) or answers from the rows.
  \<^item> A handler runs to completion without interleaving; the state it sets and the toasts
    it shows are collected in the \<open>session\<close> record.
\<close>

type_synonym timestamp = int

type_synonym date = "int \<times> nat \<times> nat"

record AttendanceRecord =
  rec_id :: string
  employee_id :: string
  attendance_date :: date
  punch_in_time :: timestamp
  punch_out_time :: "timestamp option"
  total_hours :: "real option"
  status :: "string option"
  rec_notes :: "string option"

text \<open>The error object of the store client: \<^verbatim>\<open>error.code\<close> and \<^verbatim>\<open>error.message\<close>.\<close>

record store_error =
  code :: string
  message :: string

type_synonym store = "AttendanceRecord list"

text \<open>
  A toast. The two descriptions built from a template string are kept symbolic:
  \<open>PunchedInAtClock\<close> is \<^verbatim>\<open>`Successfully punched in at ${format(new Date(), 'HH:mm')}`\<close>
  and \<open>PunchedOutTotal h\<close> is
  \<^verbatim>\<open>`Successfully punched out. Total hours: ${hoursWorked.toFixed(2)}h`\<close> with \<open>h\<close> the
  value printed.
\<close>

datatype variant = Default | Destructive

datatype description = Plain string | PunchedInAtClock | PunchedOutTotal real

record toast =
  title :: string
  description :: description
  variant :: variant

text \<open>The component state (the \<^verbatim>\<open>useState\<close> cells) and the toasts shown so far.\<close>

record session =
  todayRecord :: "AttendanceRecord option"
  attendanceHistory :: "AttendanceRecord list"
  monthlyHours :: real
  loading :: bool
  punching :: bool
  toasts :: "toast list"

text \<open>The object literal passed to \<^verbatim>\<open>.insert(...)\<close>: it has these four keys only.\<close>

record insert_payload =
  ins_employee_id :: string
  ins_attendance_date :: date
  ins_punch_in_time :: timestamp
  ins_status :: string

text \<open>The object literal passed to \<^verbatim>\<open>.update(...)\<close>.\<close>

record update_payload =
  upd_punch_out_time :: timestamp
  upd_total_hours :: real
  upd_status :: string

text \<open>The errors the environment injects into the three queries of one load.\<close>

record load_faults =
  todayError :: "store_error option"
  historyError :: "store_error option"
  monthError :: "store_error option"

section \<open>JavaScript numbers\<close>

text \<open>Rounding to the nearest integer, a tie going to the even one.\<close>

definition round_even :: "real \<Rightarrow> int" where
  "round_even t =
     (let n = \<lfloor>t\<rfloor>; r = t - of_int n in
      if r < 1 / 2 then n else if 1 / 2 < r then n + 1 else if even n then n else n + 1)"

text \<open>The largest power of two that is at most \<open>x\<close>, for \<open>x\<close> from 1 on (and 1 below).\<close>

function p2_up :: "real \<Rightarrow> real" where
  "p2_up x = (if 2 \<le> x then 2 * p2_up (x / 2) else 1)"
  by pat_completeness auto
termination
proof (relation "measure (\<lambda>x. nat \<lfloor>x\<rfloor>)")
  show "wf (measure (\<lambda>x. nat \<lfloor>x::real\<rfloor>))" by simp
next
  fix x :: real assume "2 \<le> x"
  then have "\<lfloor>x / 2\<rfloor> < \<lfloor>x\<rfloor>" "0 < \<lfloor>x\<rfloor>" by linarith+
  then show "(x / 2, x) \<in> measure (\<lambda>x. nat \<lfloor>x\<rfloor>)" by simp
qed

declare p2_up.simps [simp del]

text \<open>
  The binary64 format: 52 fraction bits, and \<open>2 ^ - 1022\<close> the smallest normal magnitude.
  \<open>ulp x\<close> is the distance between neighbouring binary64 values around \<open>x\<close>:
  \<open>2 ^ (e - 52)\<close> for \<open>2 ^ e \<le> \<bar>x\<bar> < 2 ^ (e + 1)\<close>, and \<open>2 ^ - 1074\<close> below the normal
  range. \<open>binary64 x\<close> is the multiple of \<open>ulp x\<close> nearest to \<open>x\<close>, ties to even: the
  value an arithmetic operation with exact result \<open>x\<close> returns, and the value
  \<^verbatim>\<open>parseFloat\<close> reads from a decimal text denoting \<open>x\<close>.
\<close>

definition emin :: nat where
  "emin = 1022"

definition mant :: nat where
  "mant = 52"

definition ulp :: "real \<Rightarrow> real" where
  "ulp x = p2_up (max (\<bar>x\<bar> * 2 ^ emin) 1) / 2 ^ (emin + mant)"

definition binary64 :: "real \<Rightarrow> real" where
  "binary64 x = of_int (round_even (x / ulp x)) * ulp x"

text \<open>The operators \<^verbatim>\<open>+\<close>, \<^verbatim>\<open>-\<close> and \<^verbatim>\<open>/\<close> (with a non-zero divisor) on numbers.\<close>

definition js_add :: "real \<Rightarrow> real \<Rightarrow> real" where
  "js_add x y = binary64 (x + y)"

definition js_sub :: "real \<Rightarrow> real \<Rightarrow> real" where
  "js_sub x y = binary64 (x - y)"

definition js_div :: "real \<Rightarrow> real \<Rightarrow> real" where
  "js_div x y = binary64 (x / y)"

definition parseFloat :: "real \<Rightarrow> real" where
  "parseFloat x = binary64 x"

section \<open>JavaScript and date-fns helpers\<close>

text \<open>
  \<^verbatim>\<open>employee?.id\<close> is \<open>None\<close> when there is no employee; \<^verbatim>\<open>!employee?.id\<close> also
  holds for the empty string.
\<close>

definition truthy_id :: "string option \<Rightarrow> string option" where
  "truthy_id employee =
     (case employee of None \<Rightarrow> None | Some i \<Rightarrow> if i = [] then None else Some i)"

text \<open>
  \<^verbatim>\<open>x.toFixed(f)\<close>, as the exact number its decimal text denotes, computed from the exact
  value of the binary64 number \<open>x\<close>: for a negative \<open>x\<close> ECMAScript rounds \<open>- x\<close> and puts the sign back; for the
  others it takes the integer \<open>n\<close> with \<open>n / 10^f\<close> closest to \<open>x\<close>, the larger one
  on a tie. (This is the rule for magnitudes below \<open>10^21\<close>, which hours always are.)
\<close>

definition toFixed :: "nat \<Rightarrow> real \<Rightarrow> real" where
  "toFixed f x =
     (if x < 0 then - (of_int \<lfloor>(- x) * 10 ^ f + 1 / 2\<rfloor> / 10 ^ f)
      else of_int \<lfloor>x * 10 ^ f + 1 / 2\<rfloor> / 10 ^ f)"

text \<open>\<^verbatim>\<open>record.total_hours || 0\<close>: null (and zero) give zero.\<close>

definition or_zero :: "real option \<Rightarrow> real" where
  "or_zero h = (case h of None \<Rightarrow> 0 | Some x \<Rightarrow> x)"

text \<open>\<^verbatim>\<open>error.message || fallback\<close>: the empty string is falsy.\<close>

definition message_or :: "store_error \<Rightarrow> string \<Rightarrow> string" where
  "message_or e fallback = (if message e = [] then fallback else message e)"

definition leap_year :: "int \<Rightarrow> bool" where
  "leap_year y =
     (if y mod 400 = 0 then True else if y mod 100 = 0 then False else y mod 4 = 0)"

definition days_in_month :: "int \<Rightarrow> nat \<Rightarrow> nat" where
  "days_in_month y m =
     (if m = 2 then (if leap_year y then 29 else 28)
      else if m = 4 \<or> m = 6 \<or> m = 9 \<or> m = 11 then 30 else 31)"

definition valid_date :: "date \<Rightarrow> bool" where
  "valid_date d =
     (case d of (y, m, dd) \<Rightarrow> 1 \<le> m \<and> m \<le> 12 \<and> 1 \<le> dd \<and> dd \<le> days_in_month y m)"

fun prev_day :: "date \<Rightarrow> date" where
  "prev_day (y, m, d) =
     (if 1 < d then (y, m, d - 1)
      else if 1 < m then (y, m - 1, days_in_month y (m - 1))
      else (y - 1, 12, 31))"

text \<open>\<^verbatim>\<open>d.setDate(d.getDate() - 30)\<close>: the calendar date thirty days earlier.\<close>

definition thirtyDaysBefore :: "date \<Rightarrow> date" where
  "thirtyDaysBefore d = (prev_day ^^ 30) d"

fun startOfMonth :: "date \<Rightarrow> date" where
  "startOfMonth (y, m, d) = (y, m, 1)"

fun endOfMonth :: "date \<Rightarrow> date" where
  "endOfMonth (y, m, d) = (y, m, days_in_month y m)"

definition same_month :: "date \<Rightarrow> date \<Rightarrow> bool" where
  "same_month d e = (fst d = fst e \<and> fst (snd d) = fst (snd e))"

section \<open>The record store\<close>

text \<open>
  \<^verbatim>\<open>.maybeSingle()\<close> of the store client: no row is null, one row is that row, several
  rows are the client's error \<^verbatim>\<open>PGRST116\<close>.
\<close>

definition maybeSingle :: "AttendanceRecord list \<Rightarrow> store_error + AttendanceRecord option" where
  "maybeSingle rows =
     (case rows of
        [] \<Rightarrow> Inr None
      | [r] \<Rightarrow> Inr (Some r)
      | _ \<Rightarrow> Inl \<lparr>code = ''PGRST116'',
                 message = ''JSON object requested, multiple (or no) rows returned''\<rparr>)"

text \<open>
  The three queries of \<^verbatim>\<open>fetchAttendance\<close>. Each fails with the error the environment
  injects, or answers from the rows.
\<close>

definition query_today ::
  "store_error option \<Rightarrow> string \<Rightarrow> date \<Rightarrow> store \<Rightarrow> store_error + AttendanceRecord option" where
  "query_today fault emp today db =
     (case fault of
        Some e \<Rightarrow> Inl e
      | None \<Rightarrow>
          maybeSingle (filter (\<lambda>r. employee_id r = emp \<and> attendance_date r = today) db))"

definition query_history ::
  "store_error option \<Rightarrow> string \<Rightarrow> date \<Rightarrow> store \<Rightarrow> store_error + AttendanceRecord list" where
  "query_history fault emp since db =
     (case fault of
        Some e \<Rightarrow> Inl e
      | None \<Rightarrow>
          Inr (rev (sort_key attendance_date
                 (filter (\<lambda>r. employee_id r = emp \<and> since \<le> attendance_date r) db))))"

definition query_month ::
  "store_error option \<Rightarrow> string \<Rightarrow> date \<Rightarrow> date \<Rightarrow> store \<Rightarrow> store_error + real option list" where
  "query_month fault emp monthStart monthEnd db =
     (case fault of
        Some e \<Rightarrow> Inl e
      | None \<Rightarrow>
          Inr (map total_hours
                 (filter (\<lambda>r. employee_id r = emp \<and> monthStart \<le> attendance_date r
                               \<and> attendance_date r \<le> monthEnd) db)))"

text \<open>
  Modelled from the spec: the table definition of \<^verbatim>\<open>hr_attendance\<close> is not part of the
  sources. Per the spec the store assigns the identifier (\<open>fresh\<close>), rejects a second
  row for the same employee and date with a distinguishable duplicate error (the code the
  handler tests for), and leaves the columns the payload does not name absent.
\<close>

definition store_insert ::
  "store_error option \<Rightarrow> string \<Rightarrow> insert_payload \<Rightarrow> store \<Rightarrow> store_error + store" where
  "store_insert fault fresh p db =
     (case fault of
        Some e \<Rightarrow> Inl e
      | None \<Rightarrow>
          if filter (\<lambda>r. employee_id r = ins_employee_id p
                          \<and> attendance_date r = ins_attendance_date p) db = []
          then Inr (db @ [\<lparr>rec_id = fresh,
                           employee_id = ins_employee_id p,
                           attendance_date = ins_attendance_date p,
                           punch_in_time = ins_punch_in_time p,
                           punch_out_time = None,
                           total_hours = None,
                           status = Some (ins_status p),
                           rec_notes = None\<rparr>])
          else Inl \<lparr>code = ''23505'',
                    message = ''duplicate key value violates unique constraint''\<rparr>)"

definition apply_update :: "update_payload \<Rightarrow> AttendanceRecord \<Rightarrow> AttendanceRecord" where
  "apply_update p r =
     r\<lparr>punch_out_time := Some (upd_punch_out_time p),
       total_hours := Some (upd_total_hours p),
       status := Some (upd_status p)\<rparr>"

text \<open>\<^verbatim>\<open>.update(p).eq('id', i)\<close>: every row whose id is \<open>i\<close> is patched, the others stay.\<close>

definition store_update ::
  "store_error option \<Rightarrow> update_payload \<Rightarrow> string \<Rightarrow> store \<Rightarrow> store_error + store" where
  "store_update fault p i db =
     (case fault of
        Some e \<Rightarrow> Inl e
      | None \<Rightarrow> Inr (map (\<lambda>r. if rec_id r = i then apply_update p r else r) db))"

section \<open>The component\<close>

subsection \<open>fetchAttendance\<close>

text \<open>The \<^verbatim>\<open>catch\<close> and \<^verbatim>\<open>finally\<close> blocks of \<^verbatim>\<open>fetchAttendance\<close>.\<close>

definition load_failed :: "session \<Rightarrow> session" where
  "load_failed s =
     s\<lparr>toasts := toasts s @ [\<lparr>title = ''Error'',
                               description = Plain ''Failed to load attendance data'',
                               variant = Destructive\<rparr>],
       loading := False\<rparr>"

text \<open>The \<^verbatim>\<open>reduce\<close> over the month's rows, from the left, starting at 0.\<close>

definition sum_hours :: "real option list \<Rightarrow> real" where
  "sum_hours monthData = foldl (\<lambda>sum h. js_add sum (or_zero h)) 0 monthData"

text \<open>
  \<open>today\<close> is the date computed when the component rendered; \<open>clock\<close> is the local
  calendar date of the \<^verbatim>\<open>new Date()\<close> calls made while loading. Each state cell is
  set as soon as its query has answered, before the next query is sent.
\<close>

definition fetchAttendance ::
  "string \<Rightarrow> date \<Rightarrow> date \<Rightarrow> load_faults \<Rightarrow> store \<Rightarrow> session \<Rightarrow> session" where
  "fetchAttendance emp today clock faults db s0 =
     (let s1 = s0\<lparr>loading := True\<rparr> in
      case query_today (todayError faults) emp today db of
        Inl e \<Rightarrow> load_failed s1
      | Inr todayData \<Rightarrow>
          (let s2 = s1\<lparr>todayRecord := todayData\<rparr> in
           case query_history (historyError faults) emp (thirtyDaysBefore clock) db of
             Inl e \<Rightarrow> load_failed s2
           | Inr historyData \<Rightarrow>
               (let s3 = s2\<lparr>attendanceHistory := historyData\<rparr> in
                case query_month (monthError faults) emp
                       (startOfMonth clock) (endOfMonth clock) db of
                  Inl e \<Rightarrow> load_failed s3
                | Inr monthData \<Rightarrow>
                    s3\<lparr>monthlyHours := sum_hours monthData, loading := False\<rparr>)))"

subsection \<open>handlePunchIn\<close>

definition punch_in_payload :: "string \<Rightarrow> date \<Rightarrow> timestamp \<Rightarrow> insert_payload" where
  "punch_in_payload emp today now =
     \<lparr>ins_employee_id = emp, ins_attendance_date = today,
      ins_punch_in_time = now, ins_status = ''present''\<rparr>"

definition handlePunchIn ::
  "string option \<Rightarrow> date \<Rightarrow> timestamp \<Rightarrow> store_error option \<Rightarrow> string \<Rightarrow> store \<Rightarrow> session
     \<Rightarrow> session \<times> store" where
  "handlePunchIn employee today now fault fresh db s =
     (case truthy_id employee of
        None \<Rightarrow> (s, db)
      | Some emp \<Rightarrow>
          (case store_insert fault fresh (punch_in_payload emp today now) db of
             Inl error \<Rightarrow>
               if code error = ''23505''
               then (s\<lparr>toasts := toasts s @ [\<lparr>title = ''Already Punched In'',
                          description = Plain ''You have already punched in today'',
                          variant = Destructive\<rparr>],
                       punching := False\<rparr>, db)
               else (s\<lparr>toasts := toasts s @ [\<lparr>title = ''Error'',
                          description = Plain (message_or error ''Failed to punch in''),
                          variant = Destructive\<rparr>],
                       punching := False\<rparr>, db)
           | Inr db' \<Rightarrow>
               (s\<lparr>toasts := toasts s @ [\<lparr>title = ''Punched In'',
                     description = PunchedInAtClock,
                     variant = Default\<rparr>],
                  punching := False\<rparr>, db')))"

subsection \<open>handlePunchOut\<close>

definition hoursWorked :: "timestamp \<Rightarrow> AttendanceRecord \<Rightarrow> real" where
  "hoursWorked now r =
     js_div (js_sub (of_int now) (of_int (punch_in_time r))) (1000 * 60 * 60)"

definition punch_out_status :: "real \<Rightarrow> string" where
  "punch_out_status h =
     (if h \<ge> 8 then ''present'' else if h \<ge> 4 then ''partial'' else ''absent'')"

definition punch_out_payload :: "timestamp \<Rightarrow> AttendanceRecord \<Rightarrow> update_payload" where
  "punch_out_payload now r =
     \<lparr>upd_punch_out_time = now,
      upd_total_hours = parseFloat (toFixed 2 (hoursWorked now r)),
      upd_status = punch_out_status (hoursWorked now r)\<rparr>"

text \<open>
  The guard of the handler is \<^verbatim>\<open>!employee?.id || !todayRecord\<close>: it looks at whether a
  record is loaded, not at the record's \<^verbatim>\<open>punch_out_time\<close>.
\<close>

definition handlePunchOut ::
  "string option \<Rightarrow> timestamp \<Rightarrow> store_error option \<Rightarrow> store \<Rightarrow> session \<Rightarrow> session \<times> store" where
  "handlePunchOut employee now fault db s =
     (case truthy_id employee of
        None \<Rightarrow> (s, db)
      | Some emp \<Rightarrow>
          (case todayRecord s of
             None \<Rightarrow> (s, db)
           | Some r \<Rightarrow>
               (case store_update fault (punch_out_payload now r) (rec_id r) db of
                  Inl error \<Rightarrow>
                    (s\<lparr>toasts := toasts s @ [\<lparr>title = ''Error'',
                          description = Plain (message_or error ''Failed to punch out''),
                          variant = Destructive\<rparr>],
                       punching := False\<rparr>, db)
                | Inr db' \<Rightarrow>
                    (s\<lparr>toasts := toasts s @ [\<lparr>title = ''Punched Out'',
                          description = PunchedOutTotal (toFixed 2 (hoursWorked now r)),
                          variant = Default\<rparr>],
                       punching := False\<rparr>, db'))))"

subsection \<open>Derived values of the render function\<close>

text \<open>
  In \<^verbatim>\<open>getStatus\<close> the third test is \<^verbatim>\<open>punch_in_time && !punch_out_time\<close>; the punch-in
  time of a row is always set (see the conventions above), so the test is on
  \<^verbatim>\<open>punch_out_time\<close>.
\<close>

definition getStatus :: "session \<Rightarrow> string" where
  "getStatus s =
     (case todayRecord s of
        None \<Rightarrow> ''absent''
      | Some r \<Rightarrow>
          if status r = Some ''present'' then ''present''
          else if status r = Some ''partial'' then ''partial''
          else if punch_out_time r = None then ''present''
          else ''absent'')"

definition isPunchedIn :: "session \<Rightarrow> bool" where
  "isPunchedIn s =
     (case todayRecord s of None \<Rightarrow> False | Some r \<Rightarrow> punch_out_time r = None)"

definition presentDays :: "session \<Rightarrow> nat" where
  "presentDays s = length (filter (\<lambda>r. status r = Some ''present'') (attendanceHistory s))"

definition partialDays :: "session \<Rightarrow> nat" where
  "partialDays s = length (filter (\<lambda>r. status r = Some ''partial'') (attendanceHistory s))"

text \<open>
  The value of a statistics card: \<open>Dashes\<close> is the text \<^verbatim>\<open>'--'\<close>, and
  \<open>HoursText x\<close> is \<^verbatim>\<open>`${q.toFixed(1)}h`\<close> with \<open>x\<close> the number printed.
\<close>

datatype stat_value = Dashes | HoursText real

text \<open>The ``Monthly Hours'' card: \<^verbatim>\<open>`${monthlyHours.toFixed(1)}h`\<close>.\<close>

definition monthlyHoursCard :: "session \<Rightarrow> stat_value" where
  "monthlyHoursCard s = HoursText (toFixed 1 (monthlyHours s))"

definition avgDenominator :: "session \<Rightarrow> nat" where
  "avgDenominator s = max (presentDays s + partialDays s) 1"

definition avgHoursPerDay :: "session \<Rightarrow> stat_value" where
  "avgHoursPerDay s =
     (if length (attendanceHistory s) > 0
      then HoursText (toFixed 1 (js_div (monthlyHours s) (of_nat (avgDenominator s))))
      else Dashes)"

subsection \<open>The two buttons\<close>

text \<open>
  While \<open>loading\<close> the component renders a spinner and no button. Otherwise the buttons
  carry \<^verbatim>\<open>disabled={!!todayRecord || punching}\<close> and
  \<^verbatim>\<open>disabled={!isPunchedIn || punching}\<close>; a disabled button does not call its
  handler.
\<close>

definition punchInDisabled :: "session \<Rightarrow> bool" where
  "punchInDisabled s = (todayRecord s \<noteq> None \<or> punching s)"

definition punchOutDisabled :: "session \<Rightarrow> bool" where
  "punchOutDisabled s = (\<not> isPunchedIn s \<or> punching s)"

definition clickPunchIn ::
  "string option \<Rightarrow> date \<Rightarrow> timestamp \<Rightarrow> store_error option \<Rightarrow> string \<Rightarrow> store \<Rightarrow> session
     \<Rightarrow> session \<times> store" where
  "clickPunchIn employee today now fault fresh db s =
     (if loading s then (s, db)
      else if punchInDisabled s then (s, db)
      else handlePunchIn employee today now fault fresh db s)"

definition clickPunchOut ::
  "string option \<Rightarrow> timestamp \<Rightarrow> store_error option \<Rightarrow> store \<Rightarrow> session \<Rightarrow> session \<times> store" where
  "clickPunchOut employee now fault db s =
     (if loading s then (s, db)
      else if punchOutDisabled s then (s, db)
      else handlePunchOut employee now fault db s)"

section \<open>The invariant on punch times\<close>

text \<open>
  The data-model invariant of the spec, on the rows of the store: a closing time, when
  present, is strictly after the opening time.
\<close>

definition punch_out_after_punch_in :: "store \<Rightarrow> bool" where
  "punch_out_after_punch_in db =
     list_all (\<lambda>r. case punch_out_time r of None \<Rightarrow> True | Some t \<Rightarrow> punch_in_time r < t) db"

section \<open>Sample data\<close>

text \<open>
  A row opened at 09:00:00 (in milliseconds after midnight), the same row closed at
  17:15:00, and a session with a given record loaded. They are the concrete inputs of the
  examples below.
\<close>

definition sample_open_row :: AttendanceRecord where
  "sample_open_row =
     \<lparr>rec_id = ''a1'', employee_id = ''e1'', attendance_date = (2024, 3, 5),
      punch_in_time = 32400000, punch_out_time = None, total_hours = None,
      status = Some ''present'', rec_notes = None\<rparr>"

definition sample_closed_row :: AttendanceRecord where
  "sample_closed_row =
     \<lparr>rec_id = ''a1'', employee_id = ''e1'', attendance_date = (2024, 3, 5),
      punch_in_time = 32400000, punch_out_time = Some 62100000, total_hours = Some (33 / 4),
      status = Some ''present'', rec_notes = None\<rparr>"

definition sample_session :: "AttendanceRecord option \<Rightarrow> session" where
  "sample_session today =
     \<lparr>todayRecord = today, attendanceHistory = [], monthlyHours = 0,
      loading = False, punching = False, toasts = []\<rparr>"

text \<open>
  A store error that is not the duplicate-key error, the duplicate-key error, and a store
  of five rows: three of employee \<^verbatim>\<open>e1\<close> in March 2024 (8.25 hours, none yet, 4.5 hours),
  one of \<^verbatim>\<open>e1\<close> in February, one of another employee.
\<close>

definition sample_error :: store_error where
  "sample_error = \<lparr>code = ''08006'', message = ''connection failure''\<rparr>"

definition sample_duplicate :: store_error where
  "sample_duplicate = \<lparr>code = ''23505'', message = ''duplicate key''\<rparr>"

definition sample_month_rows :: store where
  "sample_month_rows =
     [sample_closed_row,
      sample_open_row\<lparr>rec_id := ''a2'', attendance_date := (2024, 3, 6)\<rparr>,
      sample_closed_row\<lparr>rec_id := ''a3'', attendance_date := (2024, 2, 29),
                         total_hours := Some 7\<rparr>,
      sample_closed_row\<lparr>rec_id := ''a4'', employee_id := ''e2'', total_hours := Some 5\<rparr>,
      sample_closed_row\<lparr>rec_id := ''a5'', attendance_date := (2024, 3, 31),
                         total_hours := Some (9 / 2)\<rparr>]"

text \<open>
  The session as the first punch-out of the open sample row leaves it (the loaded copy is
  still the open row), and three rows of employee \<^verbatim>\<open>e1\<close> in March 2024 whose hours are
  the numbers 7.46, 7.67 and 7.72.
\<close>

definition sample_after_punch_out :: session where
  "sample_after_punch_out =
     (sample_session (Some sample_open_row))
       \<lparr>toasts := [\<lparr>title = ''Punched Out'', description = PunchedOutTotal (33 / 4),
                     variant = Default\<rparr>]\<rparr>"

definition sample_order_rows :: store where
  "sample_order_rows =
     [sample_closed_row\<lparr>rec_id := ''b1'', attendance_date := (2024, 3, 11),
                         total_hours := Some (parseFloat (746 / 100))\<rparr>,
      sample_closed_row\<lparr>rec_id := ''b2'', attendance_date := (2024, 3, 12),
                         total_hours := Some (parseFloat (767 / 100))\<rparr>,
      sample_closed_row\<lparr>rec_id := ''b3'', attendance_date := (2024, 3, 13),
                         total_hours := Some (parseFloat (772 / 100))\<rparr>]"

section \<open>Auxiliary facts\<close>

subsection \<open>Rounding to binary64\<close>

lemma round_even_cases:
  "round_even t = \<lfloor>t\<rfloor> \<or> round_even t = \<lfloor>t\<rfloor> + 1"
  by (simp add: round_even_def Let_def)

lemma round_even_error: "\<bar>of_int (round_even t) - t\<bar> \<le> 1 / 2"
  unfolding round_even_def Let_def by (auto; linarith)

lemma round_even_of_int [simp]: "round_even (of_int k) = k"
  by (simp add: round_even_def)

lemma round_even_mono:
  assumes "t \<le> u"
  shows "round_even t \<le> round_even u"
proof (cases "\<lfloor>t\<rfloor> = \<lfloor>u\<rfloor>")
  case True
  with assms show ?thesis unfolding round_even_def Let_def by auto
next
  case False
  with assms have "\<lfloor>t\<rfloor> + 1 \<le> \<lfloor>u\<rfloor>" using floor_mono [OF assms] by linarith
  moreover have "round_even t \<le> \<lfloor>t\<rfloor> + 1" using round_even_cases [of t] by linarith
  moreover have "\<lfloor>u\<rfloor> \<le> round_even u" using round_even_cases [of u] by linarith
  ultimately show ?thesis by linarith
qed

lemma round_even_minus: "round_even (- t) = - round_even t"
proof (cases "t = of_int \<lfloor>t\<rfloor>")
  case True
  then obtain k :: int where "t = of_int k" by blast
  then have "round_even (- t) = round_even (of_int (- k))" by simp
  also have "\<dots> = - k" by (rule round_even_of_int)
  finally show ?thesis using \<open>t = of_int k\<close> by simp
next
  case False
  define n where "n = \<lfloor>t\<rfloor>"
  define r where "r = t - of_int n"
  have lo: "of_int n \<le> t" and hi: "t < of_int n + 1" unfolding n_def by linarith+
  from False lo have r0: "0 < r" unfolding r_def n_def by linarith
  from hi have r1: "r < 1" unfolding r_def by linarith
  have f: "\<lfloor>- t\<rfloor> = - n - 1"
  proof (rule floor_unique)
    show "of_int (- n - 1) \<le> - t" using hi by simp
    show "- t < of_int (- n - 1) + 1" using r0 unfolding r_def by simp
  qed
  have r': "- t - of_int (- n - 1) = 1 - r" unfolding r_def by simp
  have par: "even (- n - 1) \<longleftrightarrow> odd n" by simp
  have a: "round_even t =
      (if r < 1 / 2 then n else if 1 / 2 < r then n + 1 else if even n then n else n + 1)"
    unfolding round_even_def Let_def n_def r_def by simp
  have b: "round_even (- t) =
      (if 1 - r < 1 / 2 then - n - 1 else if 1 / 2 < 1 - r then - n
       else if odd n then - n - 1 else - n)"
    unfolding round_even_def Let_def f r' par by simp
  consider "r < 1 / 2" | "1 / 2 < r" | "r = 1 / 2" by linarith
  then show ?thesis
  proof cases
    case 1 then show ?thesis unfolding a b by simp
  next
    case 2 then show ?thesis unfolding a b by simp
  next
    case 3 then show ?thesis unfolding a b by simp
  qed
qed

lemma p2_up_lt2: "x < 2 \<Longrightarrow> p2_up x = 1"
  by (subst p2_up.simps) simp

lemma p2_up_ge2: "2 \<le> x \<Longrightarrow> p2_up x = 2 * p2_up (x / 2)"
  by (subst p2_up.simps) simp

lemma p2_up_ge1: "1 \<le> p2_up x"
proof (induction x rule: p2_up.induct)
  case (1 x)
  show ?case
  proof (cases "2 \<le> x")
    case True
    with 1 show ?thesis by (simp add: p2_up_ge2)
  next
    case False
    then show ?thesis by (simp add: p2_up_lt2)
  qed
qed

lemma p2_up_pow2: "\<exists>n::nat. p2_up x = 2 ^ n"
proof (induction x rule: p2_up.induct)
  case (1 x)
  show ?case
  proof (cases "2 \<le> x")
    case True
    with 1 obtain n :: nat where "p2_up (x / 2) = 2 ^ n" by blast
    with True have "p2_up x = 2 ^ Suc n" by (simp add: p2_up_ge2)
    then show ?thesis by blast
  next
    case False
    then have "p2_up x = 2 ^ 0" by (simp add: p2_up_lt2)
    then show ?thesis by blast
  qed
qed

lemma p2_up_bracket: "1 \<le> x \<Longrightarrow> p2_up x \<le> x \<and> x < 2 * p2_up x"
proof (induction x rule: p2_up.induct)
  case (1 x)
  show ?case
  proof (cases "2 \<le> x")
    case True
    with 1 have "p2_up (x / 2) \<le> x / 2 \<and> x / 2 < 2 * p2_up (x / 2)" by simp
    with True show ?thesis by (simp add: p2_up_ge2)
  next
    case False
    with 1 show ?thesis by (simp add: p2_up_lt2)
  qed
qed

lemma p2_up_mono: "x \<le> y \<Longrightarrow> p2_up x \<le> p2_up y"
proof (induction y arbitrary: x rule: p2_up.induct)
  case (1 y)
  show ?case
  proof (cases "2 \<le> y")
    case False
    with 1 show ?thesis by (simp add: p2_up_lt2)
  next
    case True
    note y = True
    show ?thesis
    proof (cases "2 \<le> x")
      case True
      from 1 have "x / 2 \<le> y / 2" by simp
      with 1 y have "p2_up (x / 2) \<le> p2_up (y / 2)" by blast
      with True y show ?thesis by (simp add: p2_up_ge2)
    next
      case False
      have "1 \<le> p2_up (y / 2)" by (rule p2_up_ge1)
      with False y show ?thesis by (simp add: p2_up_ge2 p2_up_lt2)
    qed
  qed
qed

lemma p2_up_gap:
  assumes "p2_up x < p2_up y"
  shows "2 * p2_up x \<le> p2_up y"
proof -
  obtain i :: nat where i: "p2_up x = 2 ^ i" using p2_up_pow2 by blast
  obtain j :: nat where j: "p2_up y = 2 ^ j" using p2_up_pow2 by blast
  from assms have "(2::real) ^ i < 2 ^ j" by (simp add: i j)
  then have "i < j" by simp
  then have "Suc i \<le> j" by simp
  then have "(2::real) ^ Suc i \<le> 2 ^ j" by (rule power_increasing) simp
  then show ?thesis by (simp add: i j)
qed

lemma p2_up_scale: "1 \<le> x \<Longrightarrow> p2_up (x * 2 ^ k) = 2 ^ k * p2_up x"
proof (induction k)
  case 0
  then show ?case by simp
next
  case (Suc k)
  have "1 \<le> x * 2 ^ k"
    using Suc.prems by (metis mult.right_neutral mult_mono one_le_numeral one_le_power zero_le_one order_trans zero_le_numeral zero_le_power)
  then have "2 \<le> x * 2 ^ Suc k" by simp
  then have "p2_up (x * 2 ^ Suc k) = 2 * p2_up (x * 2 ^ Suc k / 2)" by (rule p2_up_ge2)
  also have "x * 2 ^ Suc k / 2 = x * 2 ^ k" by simp
  finally show ?case using Suc by simp
qed

lemma ulp_pos: "0 < ulp x"
  using p2_up_ge1 [of "max (\<bar>x\<bar> * 2 ^ emin) 1"] by (simp add: ulp_def)

lemma ulp_minus: "ulp (- x) = ulp x"
  by (simp add: ulp_def)

lemma ulp_mono: "\<bar>x\<bar> \<le> \<bar>y\<bar> \<Longrightarrow> ulp x \<le> ulp y"
proof -
  assume "\<bar>x\<bar> \<le> \<bar>y\<bar>"
  then have "\<bar>x\<bar> * 2 ^ emin \<le> \<bar>y\<bar> * 2 ^ emin"
    by (rule mult_right_mono) simp
  then have "max (\<bar>x\<bar> * 2 ^ emin) 1 \<le> max (\<bar>y\<bar> * 2 ^ emin) 1"
    by (rule max.mono) simp
  then have "p2_up (max (\<bar>x\<bar> * 2 ^ emin) 1) \<le> p2_up (max (\<bar>y\<bar> * 2 ^ emin) 1)"
    by (rule p2_up_mono)
  then show ?thesis by (simp add: ulp_def divide_right_mono)
qed

lemma ulp_normal:
  assumes "1 \<le> \<bar>x\<bar> * 2 ^ k" and "k \<le> emin"
  shows "ulp x = p2_up (\<bar>x\<bar> * 2 ^ k) / 2 ^ (mant + k)"
proof -
  obtain m where m: "emin = k + m" using assms(2) by (metis le_Suc_ex)
  have "(1::real) \<le> 2 ^ m" by simp
  with assms(1) have "1 * 1 \<le> (\<bar>x\<bar> * 2 ^ k) * 2 ^ m" by (intro mult_mono) simp_all
  then have mx: "max (\<bar>x\<bar> * 2 ^ emin) 1 = (\<bar>x\<bar> * 2 ^ k) * 2 ^ m"
    by (simp add: m power_add mult.assoc)
  have "ulp x = p2_up ((\<bar>x\<bar> * 2 ^ k) * 2 ^ m) / 2 ^ (emin + mant)"
    by (simp only: ulp_def mx)
  also have "\<dots> = (2 ^ m * p2_up (\<bar>x\<bar> * 2 ^ k)) / (2 ^ m * 2 ^ (mant + k))"
    by (simp only: p2_up_scale [OF assms(1)] m power_add) (simp add: mult.commute)
  also have "\<dots> = p2_up (\<bar>x\<bar> * 2 ^ k) / 2 ^ (mant + k)"
    by simp
  finally show ?thesis .
qed

lemma round_even_zero: "round_even 0 = 0"
  by (simp add: round_even_def)

lemma binary64_zero: "binary64 0 = 0"
  by (simp add: binary64_def round_even_zero)

lemma binary64_minus: "binary64 (- x) = - binary64 x"
proof -
  have "round_even (- x / ulp x) = - round_even (x / ulp x)"
    using round_even_minus [of "x / ulp x"] by simp
  then show ?thesis by (simp add: binary64_def ulp_minus)
qed

lemma binary64_nonneg: "0 \<le> x \<Longrightarrow> 0 \<le> binary64 x"
proof -
  assume "0 \<le> x"
  then have "0 \<le> x / ulp x" using ulp_pos [of x] by simp
  then have "round_even 0 \<le> round_even (x / ulp x)" by (rule round_even_mono)
  then have "0 \<le> round_even (x / ulp x)" by (simp only: round_even_zero)
  then show ?thesis using ulp_pos [of x] by (simp add: binary64_def)
qed

lemma binary64_error: "\<bar>binary64 x - x\<bar> \<le> ulp x / 2"
proof -
  have u: "0 < ulp x" by (rule ulp_pos)
  have "binary64 x - x = (of_int (round_even (x / ulp x)) - x / ulp x) * ulp x"
    using u by (simp add: binary64_def algebra_simps)
  then have "\<bar>binary64 x - x\<bar> = \<bar>of_int (round_even (x / ulp x)) - x / ulp x\<bar> * ulp x"
    using u by (simp add: abs_mult)
  also have "\<dots> \<le> (1 / 2) * ulp x"
    using round_even_error [of "x / ulp x"] u by (intro mult_right_mono) simp_all
  finally show ?thesis by simp
qed

lemma binary64_mono_nonneg:
  assumes "0 \<le> x" and "x \<le> y"
  shows "binary64 x \<le> binary64 y"
proof -
  define sx where "sx = max (\<bar>x\<bar> * 2 ^ emin) 1"
  define sy where "sy = max (\<bar>y\<bar> * 2 ^ emin) 1"
  define E :: real where "E = 2 ^ emin"
  define M :: real where "M = 2 ^ mant"
  have E: "0 < E" and M: "0 < M" by (simp_all add: E_def M_def)
  have ux: "ulp x = p2_up sx / (E * M)" and uy: "ulp y = p2_up sy / (E * M)"
    by (simp_all add: ulp_def sx_def sy_def E_def M_def power_add)
  have px: "1 \<le> p2_up sx" and py: "1 \<le> p2_up sy" by (rule p2_up_ge1)+
  have "\<bar>x\<bar> * 2 ^ emin \<le> \<bar>y\<bar> * 2 ^ emin"
    using assms by (intro mult_right_mono) simp_all
  then have "sx \<le> sy" unfolding sx_def sy_def by (rule max.mono) simp
  then have le: "p2_up sx \<le> p2_up sy" by (rule p2_up_mono)
  show ?thesis
  proof (cases "p2_up sx = p2_up sy")
    case True
    then have u: "ulp x = ulp y" by (simp add: ux uy)
    have "x / ulp y \<le> y / ulp y" using assms ulp_pos [of y] by (simp add: divide_right_mono)
    then have "round_even (x / ulp y) \<le> round_even (y / ulp y)" by (rule round_even_mono)
    then show ?thesis using ulp_pos [of y] by (simp add: binary64_def u)
  next
    case False
    with le have "p2_up sx < p2_up sy" by simp
    then have gap: "2 * p2_up sx \<le> p2_up sy" by (rule p2_up_gap)
    have "1 \<le> sx" by (simp add: sx_def)
    then have bx: "sx < 2 * p2_up sx" using p2_up_bracket by blast
    have xs: "x * E \<le> sx" using assms by (simp add: sx_def E_def)
    have "x / ulp x = (x * E) * M / p2_up sx" using E M by (simp add: ux)
    also have "\<dots> \<le> sx * M / p2_up sx"
      using xs M px by (intro divide_right_mono mult_right_mono) simp_all
    also have "\<dots> \<le> (2 * p2_up sx) * M / p2_up sx"
      using bx M px by (intro divide_right_mono mult_right_mono) simp_all
    also have "\<dots> = of_int (2 * 2 ^ mant)" using px by (simp add: M_def)
    finally have "round_even (x / ulp x) \<le> round_even (of_int (2 * 2 ^ mant))"
      by (rule round_even_mono)
    then have "round_even (x / ulp x) \<le> 2 * 2 ^ mant" by (simp only: round_even_of_int)
    then have "(of_int (round_even (x / ulp x)) :: real) \<le> of_int (2 * 2 ^ mant)"
      by (simp only: of_int_le_iff)
    then have "binary64 x \<le> of_int (2 * 2 ^ mant) * ulp x"
      unfolding binary64_def using ulp_pos [of x] by (intro mult_right_mono) simp_all
    also have "\<dots> = 2 * p2_up sx / E" using E M by (simp add: ux M_def)
    finally have up: "binary64 x \<le> 2 * p2_up sx / E" .
    have "1 < p2_up sy" using gap px by linarith
    then have "sy \<noteq> 1" using p2_up_lt2 [of 1] by auto
    then have sy: "sy = y * E" using assms by (auto simp: sy_def E_def max_def split: if_splits)
    have "1 \<le> sy" by (simp add: sy_def)
    then have by': "p2_up sy \<le> sy" using p2_up_bracket by blast
    have "of_int (2 ^ mant) = p2_up sy * M / p2_up sy" using py by (simp add: M_def)
    also have "\<dots> \<le> sy * M / p2_up sy"
      using by' M py by (intro divide_right_mono mult_right_mono) simp_all
    also have "\<dots> = y / ulp y" using E M by (simp add: uy sy)
    finally have "round_even (of_int (2 ^ mant)) \<le> round_even (y / ulp y)"
      by (rule round_even_mono)
    then have "2 ^ mant \<le> round_even (y / ulp y)" by (simp only: round_even_of_int)
    then have "(of_int (2 ^ mant) :: real) \<le> of_int (round_even (y / ulp y))"
      by (simp only: of_int_le_iff)
    then have "of_int (2 ^ mant) * ulp y \<le> binary64 y"
      unfolding binary64_def using ulp_pos [of y] by (intro mult_right_mono) simp_all
    moreover have "of_int (2 ^ mant) * ulp y = p2_up sy / E" using E M by (simp add: uy M_def)
    ultimately have lo: "p2_up sy / E \<le> binary64 y" by simp
    have "2 * p2_up sx / E \<le> p2_up sy / E" using gap E by (simp add: divide_right_mono)
    with up lo show ?thesis by linarith
  qed
qed

lemma binary64_mono:
  assumes "x \<le> y"
  shows "binary64 x \<le> binary64 y"
proof (cases "0 \<le> x")
  case True
  then show ?thesis using assms by (rule binary64_mono_nonneg)
next
  case False
  show ?thesis
  proof (cases "0 \<le> y")
    case True
    then have "0 \<le> binary64 y" by (rule binary64_nonneg)
    moreover from False have "0 \<le> binary64 (- x)" by (intro binary64_nonneg) simp
    ultimately show ?thesis by (simp add: binary64_minus)
  next
    case False
    then have "0 \<le> - y" "- y \<le> - x" using assms by simp_all
    then have "binary64 (- y) \<le> binary64 (- x)" by (rule binary64_mono_nonneg)
    then show ?thesis by (simp add: binary64_minus)
  qed
qed

lemma binary64_eval:
  assumes "1 \<le> \<bar>x\<bar> * 2 ^ k" and "k \<le> emin"
  shows "binary64 x =
           of_int (round_even (x * 2 ^ (mant + k) / p2_up (\<bar>x\<bar> * 2 ^ k)))
             * p2_up (\<bar>x\<bar> * 2 ^ k) / 2 ^ (mant + k)"
  by (simp add: binary64_def ulp_normal [OF assms])

lemma binary64_rel_error:
  assumes "1 \<le> \<bar>x\<bar> * 2 ^ emin"
  shows "\<bar>binary64 x - x\<bar> \<le> \<bar>x\<bar> / 2 ^ (mant + 1)"
proof -
  have "p2_up (\<bar>x\<bar> * 2 ^ emin) \<le> \<bar>x\<bar> * 2 ^ emin"
    using p2_up_bracket [OF assms] by blast
  then have "p2_up (\<bar>x\<bar> * 2 ^ emin) / 2 ^ (mant + emin) \<le> \<bar>x\<bar> * 2 ^ emin / 2 ^ (mant + emin)"
    by (rule divide_right_mono) simp
  then have "ulp x \<le> \<bar>x\<bar> / 2 ^ mant"
    by (simp add: ulp_normal [OF assms order_refl] power_add)
  then have "ulp x / 2 \<le> (\<bar>x\<bar> / 2 ^ mant) / 2" by (rule divide_right_mono) simp
  with binary64_error [of x] have "\<bar>binary64 x - x\<bar> \<le> (\<bar>x\<bar> / 2 ^ mant) / 2"
    by (rule order_trans)
  then show ?thesis by simp
qed

lemma binary64_of_int:
  assumes "\<bar>k\<bar> < 2 ^ (mant + 1)"
  shows "binary64 (of_int k) = of_int k"
proof (cases "k = 0")
  case True
  then show ?thesis by (simp add: binary64_zero)
next
  case False
  then have one: "1 \<le> \<bar>of_int k :: real\<bar> * 2 ^ 0"
    by (simp flip: of_int_abs) 
  obtain j :: nat where j: "p2_up \<bar>of_int k\<bar> = 2 ^ j" using p2_up_pow2 by blast
  have "p2_up \<bar>of_int k :: real\<bar> \<le> \<bar>of_int k\<bar>"
    using p2_up_bracket [of "\<bar>of_int k\<bar>"] one by simp
  also have "\<bar>of_int k :: real\<bar> < 2 ^ (mant + 1)"
    using assms by (metis of_int_abs of_int_less_iff of_int_numeral of_int_power)
  finally have "(2::real) ^ j < 2 ^ (mant + 1)" by (simp only: j)
  then have "j < mant + 1" by (rule power_less_imp_less_exp [rotated]) simp
  then obtain i where i: "mant = j + i" by (metis Suc_eq_plus1 less_Suc_eq_le le_Suc_ex)
  have "of_int k * 2 ^ (mant + 0) / p2_up (\<bar>of_int k\<bar> * 2 ^ 0) = (of_int (k * 2 ^ i) :: real)"
    by (simp add: j i power_add)
  then have "round_even (of_int k * 2 ^ (mant + 0) / p2_up (\<bar>of_int k\<bar> * 2 ^ 0)) = k * 2 ^ i"
    by (simp only: round_even_of_int)
  then have "binary64 (of_int k) = of_int (k * 2 ^ i) * p2_up (\<bar>of_int k\<bar> * 2 ^ 0) / 2 ^ (mant + 0)"
    by (simp only: binary64_eval [OF one le0])
  also have "\<dots> = of_int k" by (simp add: j i power_add)
  finally show ?thesis .
qed


subsection \<open>Hours, queries and handlers\<close>

lemma round_half_up_error:
  fixes y :: real
  shows "\<bar>of_int \<lfloor>y + 1 / 2\<rfloor> - y\<bar> \<le> 1 / 2"
  by linarith

lemma round_scaled_error:
  fixes y :: real
  shows "\<bar>of_int \<lfloor>y * 10 ^ f + 1 / 2\<rfloor> / 10 ^ f - y\<bar> \<le> 1 / (2 * 10 ^ f)"
proof -
  have "of_int \<lfloor>y * 10 ^ f + 1 / 2\<rfloor> / 10 ^ f - y
          = (of_int \<lfloor>y * 10 ^ f + 1 / 2\<rfloor> - y * 10 ^ f) / 10 ^ f"
    by (simp add: diff_divide_distrib)
  then have "\<bar>of_int \<lfloor>y * 10 ^ f + 1 / 2\<rfloor> / 10 ^ f - y\<bar>
          = \<bar>of_int \<lfloor>y * 10 ^ f + 1 / 2\<rfloor> - y * 10 ^ f\<bar> / 10 ^ f"
    by (simp add: abs_divide)
  also have "\<dots> \<le> (1 / 2) / 10 ^ f"
    by (rule divide_right_mono [OF round_half_up_error]) simp
  finally show ?thesis by simp
qed

lemma toFixed_error: "\<bar>toFixed f x - x\<bar> \<le> 1 / (2 * 10 ^ f)"
proof (cases "x < 0")
  case True
  have "\<bar>toFixed f x - x\<bar> = \<bar>of_int \<lfloor>(- x) * 10 ^ f + 1 / 2\<rfloor> / 10 ^ f - (- x)\<bar>"
    using True by (simp add: toFixed_def abs_minus_commute)
  then show ?thesis using round_scaled_error [of "- x" f] by (simp only:)
next
  case False
  then have "toFixed f x = of_int \<lfloor>x * 10 ^ f + 1 / 2\<rfloor> / 10 ^ f"
    by (simp add: toFixed_def)
  then show ?thesis using round_scaled_error [of x f] by (simp only:)
qed

lemma toFixed_decimal: "\<exists>n::int. toFixed f x = of_int n / 10 ^ f"
proof (cases "x < 0")
  case True
  have "toFixed f x = of_int (- \<lfloor>(- x) * 10 ^ f + 1 / 2\<rfloor>) / 10 ^ f"
    using True by (simp add: toFixed_def)
  then show ?thesis by blast
next
  case False
  have "toFixed f x = of_int \<lfloor>x * 10 ^ f + 1 / 2\<rfloor> / 10 ^ f"
    using False by (simp add: toFixed_def)
  then show ?thesis by blast
qed

lemma in_month_range:
  assumes "valid_date d"
  shows "(startOfMonth c \<le> d \<and> d \<le> endOfMonth c) = same_month d c"
proof -
  obtain y m dd where d: "d = (y, m, dd)" by (cases d) auto
  obtain y' m' dd' where c: "c = (y', m', dd')" by (cases c) auto
  from assms d have v: "1 \<le> dd" "dd \<le> days_in_month y m" by (simp_all add: valid_date_def)
  show ?thesis unfolding d c using v
    by (auto simp: same_month_def less_eq_prod_def less_prod_def)
qed

lemma handlePunchOut_store:
  assumes "truthy_id employee = Some emp" and "todayRecord s = Some r"
  shows "snd (handlePunchOut employee now None db s) =
           map (\<lambda>x. if rec_id x = rec_id r then apply_update (punch_out_payload now r) x else x) db"
  using assms by (simp add: handlePunchOut_def store_update_def)

lemma handlePunchIn_rows:
  "snd (handlePunchIn employee today now fault fresh db s) = db
   \<or> (\<exists>emp. snd (handlePunchIn employee today now fault fresh db s) =
         db @ [\<lparr>rec_id = fresh, employee_id = emp, attendance_date = today,
                punch_in_time = now, punch_out_time = None, total_hours = None,
                status = Some ''present'', rec_notes = None\<rparr>])"
  by (auto simp: handlePunchIn_def store_insert_def punch_in_payload_def
      split: option.splits sum.splits if_splits)

lemma handlePunchOut_rows:
  "snd (handlePunchOut employee now fault db s) = db
   \<or> (\<exists>r. todayRecord s = Some r \<and> snd (handlePunchOut employee now fault db s) =
         map (\<lambda>x. if rec_id x = rec_id r then apply_update (punch_out_payload now r) x else x) db)"
  by (auto simp: handlePunchOut_def store_update_def split: option.splits sum.splits)

lemma mset_eq_singleton_list: "mset xs = {#a#} \<Longrightarrow> xs = [a]"
  by (cases xs) (simp_all add: add_mset_eq_single)

lemma maybeSingle_mset:
  assumes "mset xs' = mset xs"
  shows "maybeSingle xs' = maybeSingle xs"
proof (cases xs)
  case Nil
  with assms have "xs' = []" by simp
  with Nil show ?thesis by simp
next
  case (Cons a as)
  note c = Cons
  show ?thesis
  proof (cases as)
    case Nil
    with c assms have "mset xs' = {#a#}" by simp
    then have "xs' = [a]" by (rule mset_eq_singleton_list)
    with c Nil show ?thesis by simp
  next
    case (Cons b bs)
    from assms have "length xs' = length xs" by (rule mset_eq_length)
    with c Cons have "length xs' = Suc (Suc (length bs))" by simp
    then obtain x y zs where "xs' = x # y # zs"
      by (cases xs'; cases "tl xs'") auto
    with c Cons show ?thesis by (simp add: maybeSingle_def)
  qed
qed

lemma query_today_mset:
  assumes "mset db' = mset db"
  shows "query_today fault emp today db' = query_today fault emp today db"
proof -
  have "mset (filter (\<lambda>r. employee_id r = emp \<and> attendance_date r = today) db')
          = mset (filter (\<lambda>r. employee_id r = emp \<and> attendance_date r = today) db)"
    by (simp only: mset_filter assms)
  then have "maybeSingle (filter (\<lambda>r. employee_id r = emp \<and> attendance_date r = today) db')
          = maybeSingle (filter (\<lambda>r. employee_id r = emp \<and> attendance_date r = today) db)"
    by (rule maybeSingle_mset)
  then show ?thesis by (simp only: query_today_def)
qed

lemma monthlyHours_loaded:
  assumes "query_today (todayError faults) emp today db = Inr t"
      and "historyError faults = None" and "monthError faults = None"
  shows "monthlyHours (fetchAttendance emp today clock faults db s) =
           sum_hours (map total_hours
             (filter (\<lambda>r. employee_id r = emp \<and> startOfMonth clock \<le> attendance_date r
                           \<and> attendance_date r \<le> endOfMonth clock) db))"
  using assms by (simp add: fetchAttendance_def query_history_def query_month_def)

lemma binary64_eval0:
  assumes "1 \<le> \<bar>x\<bar>"
  shows "binary64 x = of_int (round_even (x * 2 ^ 52 / p2_up \<bar>x\<bar>)) * p2_up \<bar>x\<bar> / 2 ^ 52"
proof -
  have "1 \<le> \<bar>x\<bar> * 2 ^ 0" using assms by simp
  from binary64_eval [OF this le0] show ?thesis by (simp add: mant_def)
qed

lemmas binary64_numeral =
  binary64_eval0 binary64_zero p2_up_ge2 p2_up_lt2 round_even_def

lemma binary64_of_int_53:
  assumes "\<bar>k\<bar> < 2 ^ 53"
  shows "binary64 (of_int k) = of_int k"
  using assms by (intro binary64_of_int) (simp add: mant_def)

lemma hoursWorked_exact_sub:
  assumes "\<bar>now - punch_in_time r\<bar> < 2 ^ 53"
  shows "hoursWorked now r = binary64 (of_int (now - punch_in_time r) / 3600000)"
  using binary64_of_int_53 [OF assms] by (simp add: hoursWorked_def js_div_def js_sub_def)

lemma hours_at_least:
  fixes c :: int
  assumes c0: "binary64 (of_int c) = of_int c"
      and c1: "binary64 (of_int (c * 3600000)) = of_int (c * 3600000)"
      and c2: "binary64 (of_int (c * 3600000 - 1)) = of_int (c * 3600000 - 1)"
      and c3: "binary64 (of_int (c * 3600000 - 1) / 3600000) < of_int c"
  shows "(of_int c \<le> hoursWorked now r)
           = (of_int c \<le> (of_int (now - punch_in_time r) :: real) / 3600000)"
proof -
  define d where "d = now - punch_in_time r"
  have hw: "hoursWorked now r = binary64 (binary64 (of_int d) / 3600000)"
    by (simp add: hoursWorked_def js_div_def js_sub_def d_def)
  have q: "(of_int c \<le> (of_int d :: real) / 3600000) = (c * 3600000 \<le> d)"
  proof -
    have "(of_int c \<le> (of_int d :: real) / 3600000) = ((of_int (c * 3600000) :: real) \<le> of_int d)"
      by (simp add: field_simps)
    also have "\<dots> = (c * 3600000 \<le> d)" by (simp only: of_int_le_iff)
    finally show ?thesis .
  qed
  show ?thesis
  proof (cases "c * 3600000 \<le> d")
    case True
    then have "(of_int (c * 3600000) :: real) \<le> of_int d" by (simp only: of_int_le_iff)
    then have "binary64 (of_int (c * 3600000)) \<le> binary64 (of_int d)" by (rule binary64_mono)
    then have "(of_int (c * 3600000) :: real) \<le> binary64 (of_int d)" by (simp only: c1)
    then have "(of_int c :: real) \<le> binary64 (of_int d) / 3600000" by (simp add: field_simps)
    then have "binary64 (of_int c) \<le> binary64 (binary64 (of_int d) / 3600000)"
      by (rule binary64_mono)
    then have "of_int c \<le> hoursWorked now r" by (simp only: c0 hw)
    with True q show ?thesis unfolding d_def by simp
  next
    case False
    then have "d \<le> c * 3600000 - 1" by simp
    then have "(of_int d :: real) \<le> of_int (c * 3600000 - 1)" by (simp only: of_int_le_iff)
    then have "binary64 (of_int d) \<le> binary64 (of_int (c * 3600000 - 1))" by (rule binary64_mono)
    then have "binary64 (of_int d) \<le> of_int (c * 3600000 - 1)" by (simp only: c2)
    then have "binary64 (of_int d) / 3600000 \<le> of_int (c * 3600000 - 1) / 3600000"
      by (rule divide_right_mono) simp
    then have "binary64 (binary64 (of_int d) / 3600000)
                 \<le> binary64 (of_int (c * 3600000 - 1) / 3600000)"
      by (rule binary64_mono)
    with c3 have "hoursWorked now r < of_int c" by (simp only: hw)
    with False q show ?thesis unfolding d_def by simp
  qed
qed

lemma hours_at_least_8:
  "(8 \<le> hoursWorked now r) = (8 \<le> (of_int (now - punch_in_time r) :: real) / 3600000)"
  using hours_at_least [of 8 now r] by (simp add: binary64_numeral)

lemma hours_at_least_4:
  "(4 \<le> hoursWorked now r) = (4 \<le> (of_int (now - punch_in_time r) :: real) / 3600000)"
  using hours_at_least [of 4 now r] by (simp add: binary64_numeral)

lemma toFixed_2_integer:
  "\<exists>n::int. toFixed 2 h = of_int n / 100 \<and> \<bar>of_int n - h * 100\<bar> \<le> 1 / 2"
proof -
  obtain n :: int where n: "toFixed 2 h = of_int n / 10 ^ 2" using toFixed_decimal by blast
  have "\<bar>toFixed 2 h - h\<bar> \<le> 1 / (2 * 10 ^ 2)" by (rule toFixed_error)
  then have "\<bar>of_int n / 100 - h\<bar> \<le> 1 / 200" by (simp add: n)
  then have le: "\<bar>of_int n / 100 - h\<bar> * 100 \<le> 1 / 200 * 100" by (rule mult_right_mono) simp
  have "\<bar>of_int n - h * 100\<bar> = \<bar>(of_int n / 100 - h) * 100\<bar>"
    by (simp add: algebra_simps)
  also have "\<dots> = \<bar>of_int n / 100 - h\<bar> * \<bar>100\<bar>" by (rule abs_mult)
  finally have "\<bar>of_int n - h * 100\<bar> = \<bar>of_int n / 100 - h\<bar> * 100" by simp
  with le have "\<bar>of_int n - h * 100\<bar> \<le> 1 / 2" by simp
  with n show ?thesis by auto
qed

lemma total_hours_nearest_hundredth:
  fixes d :: int
  assumes "\<bar>d\<bar> < 2 ^ 53"
  shows "\<exists>n::int. toFixed 2 (binary64 (of_int d / 3600000)) = of_int n / 100
           \<and> \<bar>of_int n / 100 - (of_int d :: real) / 3600000\<bar> \<le> 1 / 200"
proof -
  define q :: real where "q = of_int d / 3600000"
  define h where "h = binary64 q"
  obtain n :: int where n: "toFixed 2 h = of_int n / 100" and e: "\<bar>of_int n - h * 100\<bar> \<le> 1 / 2"
    using toFixed_2_integer by blast
  have hq: "\<bar>h - q\<bar> * 100 < 1 / 36000"
  proof (cases "d = 0")
    case True
    then show ?thesis by (simp add: h_def q_def binary64_zero)
  next
    case False
    then have "1 \<le> \<bar>d\<bar>" by simp
    then have "(1::real) \<le> \<bar>of_int d\<bar>" by (metis of_int_1_le_iff of_int_abs)
    then have "1 / 3600000 \<le> \<bar>q\<bar>" by (simp add: q_def)
    moreover have "(3600000::real) \<le> 2 ^ emin"
    proof -
      have "(3600000::real) \<le> 2 ^ 22" by simp
      also have "\<dots> \<le> 2 ^ emin" by (rule power_increasing) (simp_all add: emin_def)
      finally show ?thesis .
    qed
    ultimately have "1 / 3600000 * 3600000 \<le> \<bar>q\<bar> * 2 ^ emin"
      by (intro mult_mono) simp_all
    then have "1 \<le> \<bar>q\<bar> * 2 ^ emin" by simp
    then have "\<bar>h - q\<bar> \<le> \<bar>q\<bar> / 2 ^ (mant + 1)" unfolding h_def by (rule binary64_rel_error)
    also have "\<dots> = \<bar>of_int d\<bar> / (3600000 * 2 ^ 53)" by (simp add: q_def mant_def)
    also have "\<dots> < 2 ^ 53 / (3600000 * 2 ^ 53)"
    proof (rule divide_strict_right_mono)
      show "\<bar>of_int d :: real\<bar> < 2 ^ 53"
        using assms by (metis of_int_abs of_int_less_iff of_int_numeral of_int_power)
    qed simp
    finally have "\<bar>h - q\<bar> < 1 / 3600000" by simp
    then show ?thesis by simp
  qed
  have "\<bar>of_int n - q * 100\<bar> \<le> \<bar>of_int n - h * 100\<bar> + \<bar>h - q\<bar> * 100" by (simp add: abs_if; linarith)
  with e hq have lt: "\<bar>of_int n - q * 100\<bar> < 1 / 2 + 1 / 36000" by linarith
  have "of_int n - q * 100 = (of_int (36000 * n - d) :: real) / 36000"
    by (simp add: q_def field_simps)
  with lt have "\<bar>(of_int (36000 * n - d) :: real) / 36000\<bar> < 1 / 2 + 1 / 36000" by simp
  then have "\<bar>(of_int (36000 * n - d) :: real)\<bar> < 18001" by (simp add: field_simps)
  then have "\<bar>36000 * n - d\<bar> < 18001"
    by (metis of_int_abs of_int_less_iff of_int_numeral)
  then have "\<bar>36000 * n - d\<bar> \<le> 18000" by simp
  then have "\<bar>(of_int (36000 * n - d) :: real)\<bar> \<le> 18000"
    by (metis of_int_abs of_int_le_iff of_int_numeral)
  then have "\<bar>of_int n / 100 - (of_int d :: real) / 3600000\<bar> \<le> 1 / 200"
    by (simp add: field_simps)
  with n show ?thesis unfolding h_def q_def by blast
qed

lemma hoursWorked_sample:
  "hoursWorked 64800000 sample_open_row = 9"
  "hoursWorked 62100000 sample_open_row = 33 / 4"
  "hoursWorked 68400000 sample_open_row = 10"
  "hoursWorked 36018000 sample_open_row = 1131529406376837 / 1125899906842624"
  by (simp_all add: hoursWorked_def js_div_def js_sub_def sample_open_row_def binary64_numeral)

lemma toFixed_sample:
  "toFixed 2 9 = 9"
  "toFixed 2 (33 / 4) = 33 / 4"
  "toFixed 2 10 = 10"
  "toFixed 2 (1131529406376837 / 1125899906842624) = 1"
  by (simp_all add: toFixed_def)

lemma parseFloat_sample:
  "parseFloat 9 = 9"
  "parseFloat (33 / 4) = 33 / 4"
  "parseFloat 10 = 10"
  "parseFloat 1 = 1"
  by (simp_all add: parseFloat_def binary64_numeral)

lemma fetchAttendance_todayRecord:
  assumes "query_today (todayError faults) emp today db = Inr t"
  shows "todayRecord (fetchAttendance emp today clock faults db s) = t"
  using assms by (simp add: fetchAttendance_def Let_def load_failed_def split: sum.splits)

lemma handlePunchOut_todayRecord:
  "todayRecord (fst (handlePunchOut employee now fault db s)) = todayRecord s"
  by (simp add: handlePunchOut_def split: option.splits sum.splits)

lemma handlePunchOut_success:
  assumes "truthy_id employee = Some emp" and "todayRecord s = Some r"
  shows "handlePunchOut employee now None db s =
           (s\<lparr>toasts := toasts s @ [\<lparr>title = ''Punched Out'',
                  description = PunchedOutTotal (toFixed 2 (hoursWorked now r)),
                  variant = Default\<rparr>],
              punching := False\<rparr>,
            map (\<lambda>x. if rec_id x = rec_id r
                      then apply_update (punch_out_payload now r) x else x) db)"
  using assms by (simp add: handlePunchOut_def store_update_def)

lemma clickPunchOut_enabled:
  assumes "isPunchedIn s" and "\<not> punching s" and "\<not> loading s"
  shows "clickPunchOut employee now fault db s = handlePunchOut employee now fault db s"
  using assms by (simp add: clickPunchOut_def punchOutDisabled_def)

lemma sample_punch_out_rows:
  "apply_update (punch_out_payload 62100000 sample_open_row) sample_open_row = sample_closed_row"
  "apply_update (punch_out_payload 68400000 sample_open_row) sample_closed_row
     = sample_closed_row\<lparr>punch_out_time := Some 68400000, total_hours := Some 10\<rparr>"
proof -
  have "punch_out_payload 62100000 sample_open_row =
          \<lparr>upd_punch_out_time = 62100000, upd_total_hours = 33 / 4, upd_status = ''present''\<rparr>"
    by (simp add: punch_out_payload_def hoursWorked_sample toFixed_sample parseFloat_sample
        punch_out_status_def)
  then show "apply_update (punch_out_payload 62100000 sample_open_row) sample_open_row
               = sample_closed_row"
    by (simp add: apply_update_def sample_open_row_def sample_closed_row_def)
  have "punch_out_payload 68400000 sample_open_row =
          \<lparr>upd_punch_out_time = 68400000, upd_total_hours = 10, upd_status = ''present''\<rparr>"
    by (simp add: punch_out_payload_def hoursWorked_sample toFixed_sample parseFloat_sample
        punch_out_status_def)
  then show "apply_update (punch_out_payload 68400000 sample_open_row) sample_closed_row
     = sample_closed_row\<lparr>punch_out_time := Some 68400000, total_hours := Some 10\<rparr>"
    by (simp add: apply_update_def sample_closed_row_def)
qed

lemma sample_hours_numbers:
  "parseFloat (746 / 100) = 8399213305045975 / 1125899906842624"
  "parseFloat (767 / 100) = 4317826142741463 / 562949953421312"
  "parseFloat (772 / 100) = 8691947280825057 / 1125899906842624"
  by (simp_all add: parseFloat_def binary64_numeral)

lemma sample_order_sum:
  "sum_hours [Some (8399213305045975 / 1125899906842624),
              Some (4317826142741463 / 562949953421312),
              Some (8691947280825057 / 1125899906842624)]
     = 6431703217838489 / 281474976710656"
  by (simp add: sum_hours_def js_add_def or_zero_def binary64_numeral)

lemma sample_order_sum_rev:
  "sum_hours [Some (8691947280825057 / 1125899906842624),
              Some (4317826142741463 / 562949953421312),
              Some (8399213305045975 / 1125899906842624)]
     = 3215851608919245 / 140737488355328"
  by (simp add: sum_hours_def js_add_def or_zero_def binary64_numeral)

lemma sample_month_sum:
  "sum_hours [Some (33 / 4), None, Some (9 / 2)] = 51 / 4"
  "sum_hours [Some (9 / 2), None, Some (33 / 4)] = 51 / 4"
  by (simp_all add: sum_hours_def js_add_def or_zero_def binary64_numeral)

lemma sum_hours_fold:
  "sum_hours (map total_hours rows) =
     foldl (\<lambda>sum h. binary64 (sum + h)) 0
       (map (\<lambda>r. case total_hours r of None \<Rightarrow> 0 | Some h \<Rightarrow> h) rows)"
proof -
  have "foldl (\<lambda>sum h. js_add sum (or_zero h)) a (map total_hours rows) =
          foldl (\<lambda>sum h. binary64 (sum + h)) a
            (map (\<lambda>r. case total_hours r of None \<Rightarrow> 0 | Some h \<Rightarrow> h) rows)" for a
    by (induction rows arbitrary: a) (simp_all add: js_add_def or_zero_def)
  then show ?thesis by (simp add: sum_hours_def)
qed

lemma month_filter:
  assumes "\<forall>r \<in> set db. valid_date (attendance_date r)"
  shows "filter (\<lambda>r. employee_id r = emp \<and> startOfMonth clock \<le> attendance_date r
                           \<and> attendance_date r \<le> endOfMonth clock) db
         = filter (\<lambda>r. employee_id r = emp \<and> same_month (attendance_date r) clock) db"
  using assms by (intro filter_cong refl) (simp add: in_month_range)

section \<open>Punch-out: status and hours\<close>

text \<open>
  Claim C1. When \<^verbatim>\<open>handlePunchOut\<close> runs with a record loaded and the store accepts
  the update, every stored row with the loaded record's id carries a status that is a
  function of the session hours alone, \<open>(now - punchInTime) / 3600000\<close>:
  \<^verbatim>\<open>present\<close> from 8 hours on, \<^verbatim>\<open>partial\<close> from 4 hours up to 8, \<^verbatim>\<open>absent\<close>
  below 4. Such a row exists as soon as the loaded record is a row of the store. The
  source compares the binary64 quotient \<open>hoursWorked\<close> with 8 and 4; the two comparisons
  have the same outcome as on the exact quotient.
\<close>

theorem punch_out_status_by_hours:
  assumes "truthy_id employee = Some emp" and "todayRecord s = Some r"
      and "x \<in> set db" and "rec_id x = rec_id r"
  shows "(8 \<le> hoursWorked now r \<longleftrightarrow> 8 \<le> (of_int (now - punch_in_time r) :: real) / 3600000)
       \<and> (4 \<le> hoursWorked now r \<longleftrightarrow> 4 \<le> (of_int (now - punch_in_time r) :: real) / 3600000)
       \<and> (\<exists>row \<in> set (snd (handlePunchOut employee now None db s)). rec_id row = rec_id r)
       \<and> (\<forall>row \<in> set (snd (handlePunchOut employee now None db s)).
            rec_id row = rec_id r \<longrightarrow>
            status row =
              Some (if 8 \<le> (of_int (now - punch_in_time r) :: real) / 3600000 then ''present''
                    else if 4 \<le> (of_int (now - punch_in_time r) :: real) / 3600000
                    then ''partial''
                    else ''absent''))"
proof (intro conjI)
  show "8 \<le> hoursWorked now r \<longleftrightarrow> 8 \<le> (of_int (now - punch_in_time r) :: real) / 3600000"
    by (rule hours_at_least_8)
  show "4 \<le> hoursWorked now r \<longleftrightarrow> 4 \<le> (of_int (now - punch_in_time r) :: real) / 3600000"
    by (rule hours_at_least_4)
  let ?db' = "snd (handlePunchOut employee now None db s)"
  have db': "?db' = map (\<lambda>x. if rec_id x = rec_id r
                               then apply_update (punch_out_payload now r) x else x) db"
    using assms(1,2) by (rule handlePunchOut_store)
  have "apply_update (punch_out_payload now r) x \<in> set ?db'"
    unfolding db' using assms(3,4) by (auto simp: image_iff intro!: bexI [of _ x])
  moreover have "rec_id (apply_update (punch_out_payload now r) x) = rec_id r"
    using assms(4) by (simp add: apply_update_def)
  ultimately show "\<exists>row \<in> set ?db'. rec_id row = rec_id r" by blast
  show "\<forall>row \<in> set ?db'. rec_id row = rec_id r \<longrightarrow>
            status row =
              Some (if 8 \<le> (of_int (now - punch_in_time r) :: real) / 3600000 then ''present''
                    else if 4 \<le> (of_int (now - punch_in_time r) :: real) / 3600000
                    then ''partial''
                    else ''absent'')"
    unfolding db'
    by (auto simp: apply_update_def punch_out_payload_def punch_out_status_def
        hours_at_least_8 hours_at_least_4)
qed

text \<open>
  The spec's examples: 5h30m after punch-in the status is \<^verbatim>\<open>partial\<close>, 3h after it is
  \<^verbatim>\<open>absent\<close>.
\<close>

theorem punch_out_status_by_hours_witness:
  "map status (snd (handlePunchOut (Some ''e1'') 52200000 None [sample_open_row]
                      (sample_session (Some sample_open_row)))) = [Some ''partial'']
   \<and> map status (snd (handlePunchOut (Some ''e1'') 43200000 None [sample_open_row]
                      (sample_session (Some sample_open_row)))) = [Some ''absent'']"
proof -
  let ?s = "sample_session (Some sample_open_row)"
  have e: "truthy_id (Some ''e1'') = Some ''e1''" by (simp add: truthy_id_def)
  have t: "todayRecord ?s = Some sample_open_row" by (simp add: sample_session_def)
  have m: "sample_open_row \<in> set [sample_open_row]" by simp
  have st: "snd (handlePunchOut (Some ''e1'') now None [sample_open_row] ?s)
              = [apply_update (punch_out_payload now sample_open_row) sample_open_row]" for now
    using handlePunchOut_store [OF e t] by simp
  have p: "punch_in_time sample_open_row = 32400000" by (simp add: sample_open_row_def)
  from punch_out_status_by_hours [OF e t m refl, of 52200000]
  have "status (apply_update (punch_out_payload 52200000 sample_open_row) sample_open_row)
          = Some ''partial''"
    unfolding st p by simp
  moreover
  from punch_out_status_by_hours [OF e t m refl, of 43200000]
  have "status (apply_update (punch_out_payload 43200000 sample_open_row) sample_open_row)
          = Some ''absent''"
    unfolding st p by simp
  ultimately show ?thesis unfolding st by simp
qed

text \<open>
  Claim C6. The one call \<^verbatim>\<open>.update({punch_out_time, total_hours, status}).eq('id', id)\<close>
  of \<^verbatim>\<open>handlePunchOut\<close> patches exactly the rows with the loaded record's id, with the
  three fields together, and changes nothing when the store rejects it. The hours written
  are \<^verbatim>\<open>parseFloat(hoursWorked.toFixed(2))\<close>, where \<open>hoursWorked\<close> is the binary64 number
  nearest to the elapsed time in hours: the number read from a decimal text with two
  decimals, and that decimal is a hundredth nearest to the exact elapsed time
  \<open>(now - punchInTime) / 3600000\<close> (at most half a hundredth away; when the elapsed time
  lies exactly between two hundredths either neighbour can result). The elapsed time is
  below \<open>2 ^ 53\<close> milliseconds, as it is for any two instants a \<^verbatim>\<open>Date\<close> can hold that
  are less than 285 000 years apart.
\<close>

theorem punch_out_total_hours_single_update:
  assumes "truthy_id employee = Some emp" and "todayRecord s = Some r"
      and "\<bar>now - punch_in_time r\<bar> < 2 ^ 53"
  shows "snd (handlePunchOut employee now None db s) =
           map (\<lambda>x. if rec_id x = rec_id r
                     then x\<lparr>punch_out_time := Some now,
                            total_hours := Some (parseFloat (toFixed 2 (hoursWorked now r))),
                            status := Some (punch_out_status (hoursWorked now r))\<rparr>
                     else x) db
       \<and> snd (handlePunchOut employee now (Some e) db s) = db
       \<and> hoursWorked now r = binary64 (of_int (now - punch_in_time r) / 3600000)
       \<and> \<bar>hoursWorked now r - of_int (now - punch_in_time r) / 3600000\<bar>
            \<le> \<bar>of_int (now - punch_in_time r) / 3600000\<bar> / 2 ^ 53
       \<and> (\<exists>n::int. toFixed 2 (hoursWorked now r) = of_int n / 100
             \<and> \<bar>of_int n / 100 - (of_int (now - punch_in_time r) :: real) / 3600000\<bar> \<le> 1 / 200)"
proof (intro conjI)
  show "snd (handlePunchOut employee now None db s) =
           map (\<lambda>x. if rec_id x = rec_id r
                     then x\<lparr>punch_out_time := Some now,
                            total_hours := Some (parseFloat (toFixed 2 (hoursWorked now r))),
                            status := Some (punch_out_status (hoursWorked now r))\<rparr>
                     else x) db"
    by (simp add: handlePunchOut_store [OF assms(1,2)] apply_update_def punch_out_payload_def)
  show "snd (handlePunchOut employee now (Some e) db s) = db"
    using assms(1,2) by (simp add: handlePunchOut_def store_update_def)
  show hw: "hoursWorked now r = binary64 (of_int (now - punch_in_time r) / 3600000)"
    using assms(3) by (rule hoursWorked_exact_sub)
  show "\<bar>hoursWorked now r - of_int (now - punch_in_time r) / 3600000\<bar>
            \<le> \<bar>of_int (now - punch_in_time r) / 3600000\<bar> / 2 ^ 53"
  proof (cases "now - punch_in_time r = 0")
    case True
    show ?thesis unfolding hw True by (simp add: binary64_zero)
  next
    case False
    define q :: real where "q = of_int (now - punch_in_time r) / 3600000"
    from False have "1 \<le> \<bar>now - punch_in_time r\<bar>" by simp
    then have "(1::real) \<le> \<bar>of_int (now - punch_in_time r)\<bar>"
      by (metis of_int_1_le_iff of_int_abs)
    then have "1 / 3600000 \<le> \<bar>q\<bar>" by (simp add: q_def)
    moreover have "(3600000::real) \<le> 2 ^ emin"
    proof -
      have "(3600000::real) \<le> 2 ^ 22" by simp
      also have "\<dots> \<le> 2 ^ emin" by (rule power_increasing) (simp_all add: emin_def)
      finally show ?thesis .
    qed
    ultimately have "1 / 3600000 * 3600000 \<le> \<bar>q\<bar> * 2 ^ emin"
      by (intro mult_mono) simp_all
    then have "1 \<le> \<bar>q\<bar> * 2 ^ emin" by simp
    then have "\<bar>binary64 q - q\<bar> \<le> \<bar>q\<bar> / 2 ^ (mant + 1)" by (rule binary64_rel_error)
    then show ?thesis by (simp add: hw q_def mant_def)
  qed
  show "\<exists>n::int. toFixed 2 (hoursWorked now r) = of_int n / 100
             \<and> \<bar>of_int n / 100 - (of_int (now - punch_in_time r) :: real) / 3600000\<bar> \<le> 1 / 200"
    unfolding hw using assms(3) by (rule total_hours_nearest_hundredth)
qed

text \<open>
  The spec's examples: punch-out 9h after punch-in stores 9.00 hours and \<^verbatim>\<open>present\<close>;
  punch-in at 09:00:00 and punch-out at 17:15:00 stores 8.25 hours and \<^verbatim>\<open>present\<close>.
  A tie: 1h 0m 18s after punch-in the elapsed time is 1.005 hours, the quotient is the
  binary64 number just below it, and 1.00 hours are stored.
\<close>

theorem punch_out_total_hours_single_update_witness:
  "snd (handlePunchOut (Some ''e1'') 64800000 None [sample_open_row]
          (sample_session (Some sample_open_row)))
     = [sample_open_row\<lparr>punch_out_time := Some 64800000, total_hours := Some 9,
                         status := Some ''present''\<rparr>]
   \<and> snd (handlePunchOut (Some ''e1'') 62100000 None [sample_open_row]
          (sample_session (Some sample_open_row))) = [sample_closed_row]
   \<and> snd (handlePunchOut (Some ''e1'') 36018000 None [sample_open_row]
          (sample_session (Some sample_open_row)))
     = [sample_open_row\<lparr>punch_out_time := Some 36018000, total_hours := Some 1,
                         status := Some ''absent''\<rparr>]"
proof -
  let ?s = "sample_session (Some sample_open_row)"
  have e: "truthy_id (Some ''e1'') = Some ''e1''" by (simp add: truthy_id_def)
  have t: "todayRecord ?s = Some sample_open_row" by (simp add: sample_session_def)
  have r: "\<bar>now - punch_in_time sample_open_row\<bar> < 2 ^ 53"
    if "now = 64800000 \<or> now = 62100000 \<or> now = 36018000" for now
    using that by (auto simp: sample_open_row_def)
  have "snd (handlePunchOut (Some ''e1'') 64800000 None [sample_open_row] ?s)
          = [sample_open_row\<lparr>punch_out_time := Some 64800000, total_hours := Some 9,
                              status := Some ''present''\<rparr>]"
    using punch_out_total_hours_single_update
            [OF e t r, of 64800000 "[sample_open_row]", THEN conjunct1]
    by (simp add: hoursWorked_sample toFixed_sample parseFloat_sample punch_out_status_def)
  moreover
  have "snd (handlePunchOut (Some ''e1'') 62100000 None [sample_open_row] ?s)
          = [sample_open_row\<lparr>punch_out_time := Some 62100000, total_hours := Some (33 / 4),
                              status := Some ''present''\<rparr>]"
    using punch_out_total_hours_single_update
            [OF e t r, of 62100000 "[sample_open_row]", THEN conjunct1]
    by (simp add: hoursWorked_sample toFixed_sample parseFloat_sample punch_out_status_def)
  then have "snd (handlePunchOut (Some ''e1'') 62100000 None [sample_open_row] ?s)
          = [sample_closed_row]"
    by (simp add: sample_open_row_def sample_closed_row_def)
  moreover
  have "snd (handlePunchOut (Some ''e1'') 36018000 None [sample_open_row] ?s)
          = [sample_open_row\<lparr>punch_out_time := Some 36018000, total_hours := Some 1,
                              status := Some ''absent''\<rparr>]"
    using punch_out_total_hours_single_update
            [OF e t r, of 36018000 "[sample_open_row]", THEN conjunct1]
    by (simp add: hoursWorked_sample toFixed_sample parseFloat_sample punch_out_status_def)
  ultimately show ?thesis by simp
qed

section \<open>Punch-out: the guards\<close>

text \<open>
  Claim C2, as stated, fails: the guards look at the copy of the record that is loaded in
  the session, and a punch-out does not refresh that copy (the reload comes later, from
  the change feed). Here the open row is punched out at 17:15:00, which closes the stored
  row with 8.25 hours and leaves the open copy loaded and the button enabled; a second
  click at 19:00:00, before any reload, rewrites the already-closed stored row to
  19:00:00 and 10 hours.
\<close>

theorem punch_out_second_click_counterexample:
  "clickPunchOut (Some ''e1'') 62100000 None [sample_open_row]
       (sample_session (Some sample_open_row))
     = (sample_after_punch_out, [sample_closed_row])
   \<and> snd (clickPunchOut (Some ''e1'') 68400000 None [sample_closed_row] sample_after_punch_out)
     = [sample_closed_row\<lparr>punch_out_time := Some 68400000, total_hours := Some 10\<rparr>]
   \<and> sample_closed_row\<lparr>punch_out_time := Some 68400000, total_hours := Some 10\<rparr>
     \<noteq> sample_closed_row"
proof -
  let ?o = "sample_session (Some sample_open_row)"
  have e: "truthy_id (Some ''e1'') = Some ''e1''" by (simp add: truthy_id_def)
  have t: "todayRecord ?o = Some sample_open_row"
          "todayRecord sample_after_punch_out = Some sample_open_row"
    by (simp_all add: sample_session_def sample_after_punch_out_def)
  have en: "isPunchedIn ?o" "\<not> punching ?o" "\<not> loading ?o"
           "isPunchedIn sample_after_punch_out" "\<not> punching sample_after_punch_out"
           "\<not> loading sample_after_punch_out"
    by (simp_all add: isPunchedIn_def sample_session_def sample_after_punch_out_def
        sample_open_row_def)
  have i: "rec_id sample_closed_row = rec_id sample_open_row"
    by (simp add: sample_open_row_def sample_closed_row_def)
  have s1: "?o\<lparr>toasts := toasts ?o @ [\<lparr>title = ''Punched Out'',
                  description = PunchedOutTotal (toFixed 2 (hoursWorked 62100000 sample_open_row)),
                  variant = Default\<rparr>],
              punching := False\<rparr> = sample_after_punch_out"
    by (simp add: sample_after_punch_out_def sample_session_def hoursWorked_sample toFixed_sample)
  have 1: "clickPunchOut (Some ''e1'') 62100000 None [sample_open_row] ?o
     = (sample_after_punch_out, [sample_closed_row])"
    by (simp add: clickPunchOut_enabled [OF en(1-3)] handlePunchOut_success [OF e t(1)]
        s1 sample_punch_out_rows)
  have 2: "snd (clickPunchOut (Some ''e1'') 68400000 None [sample_closed_row]
                  sample_after_punch_out)
     = [sample_closed_row\<lparr>punch_out_time := Some 68400000, total_hours := Some 10\<rparr>]"
    by (simp add: clickPunchOut_enabled [OF en(4-6)] handlePunchOut_success [OF e t(2)]
        i sample_punch_out_rows)
  have 3: "sample_closed_row\<lparr>punch_out_time := Some 68400000, total_hours := Some 10\<rparr>
     \<noteq> sample_closed_row"
    by (simp add: sample_closed_row_def)
  from 1 2 3 show ?thesis by blast
qed

text \<open>
  Claim C2, amended. \<^verbatim>\<open>handlePunchOut\<close> is a no-op when no record is loaded (or no
  employee is signed in), and a click on Punch Out is a no-op unless the loaded copy has
  an absent \<^verbatim>\<open>punch_out_time\<close>: a click that changes anything was made with such a copy
  loaded. A click never changes the loaded copy. With an open copy loaded (and the button
  enabled) an accepted click patches every stored row with the copy's id, whatever that
  row's own \<^verbatim>\<open>punch_out_time\<close>, so a second punch-out made before the reload rewrites
  the closed row. Once a load has brought a closed record into the session, a click
  changes nothing.
\<close>

theorem punch_out_acts_on_loaded_copy:
  "(todayRecord s = None \<longrightarrow> handlePunchOut employee now fault db s = (s, db))
   \<and> (truthy_id employee = None \<longrightarrow> handlePunchOut employee now fault db s = (s, db))
   \<and> (isPunchedIn s \<longleftrightarrow> (\<exists>r. todayRecord s = Some r \<and> punch_out_time r = None))
   \<and> (\<not> isPunchedIn s \<longrightarrow> clickPunchOut employee now fault db s = (s, db))
   \<and> (clickPunchOut employee now fault db s \<noteq> (s, db) \<longrightarrow>
        (\<exists>r. todayRecord s = Some r \<and> punch_out_time r = None))
   \<and> todayRecord (fst (clickPunchOut employee now fault db s)) = todayRecord s
   \<and> (todayRecord s = Some r \<and> punch_out_time r = None \<and> \<not> punching s \<and> \<not> loading s
        \<and> truthy_id employee = Some emp \<longrightarrow>
        snd (clickPunchOut employee now None db s) =
          map (\<lambda>x. if rec_id x = rec_id r
                    then x\<lparr>punch_out_time := Some now,
                           total_hours := Some (parseFloat (toFixed 2 (hoursWorked now r))),
                           status := Some (punch_out_status (hoursWorked now r))\<rparr>
                    else x) db)
   \<and> (query_today (todayError faults) emp' today db = Inr (Some c) \<and> punch_out_time c \<noteq> None
        \<longrightarrow>
        clickPunchOut employee now fault db'
            (fetchAttendance emp' today clock faults db s)
          = (fetchAttendance emp' today clock faults db s, db'))"
proof -
  have a: "todayRecord s = None \<longrightarrow> handlePunchOut employee now fault db s = (s, db)"
    by (simp add: handlePunchOut_def split: option.splits)
  have b: "truthy_id employee = None \<longrightarrow> handlePunchOut employee now fault db s = (s, db)"
    by (simp add: handlePunchOut_def)
  have c: "isPunchedIn s \<longleftrightarrow> (\<exists>r. todayRecord s = Some r \<and> punch_out_time r = None)" for s
    by (simp add: isPunchedIn_def split: option.splits)
  have d: "\<not> isPunchedIn s \<longrightarrow> clickPunchOut employee now fault db s = (s, db)" for s db
    by (simp add: clickPunchOut_def punchOutDisabled_def)
  from c d have e: "clickPunchOut employee now fault db s \<noteq> (s, db) \<longrightarrow>
        (\<exists>r. todayRecord s = Some r \<and> punch_out_time r = None)" by blast
  have f: "todayRecord (fst (clickPunchOut employee now fault db s)) = todayRecord s"
    by (simp add: clickPunchOut_def handlePunchOut_todayRecord)
  have g: "todayRecord s = Some r \<and> punch_out_time r = None \<and> \<not> punching s \<and> \<not> loading s
        \<and> truthy_id employee = Some emp \<longrightarrow>
        snd (clickPunchOut employee now None db s) =
          map (\<lambda>x. if rec_id x = rec_id r
                    then x\<lparr>punch_out_time := Some now,
                           total_hours := Some (parseFloat (toFixed 2 (hoursWorked now r))),
                           status := Some (punch_out_status (hoursWorked now r))\<rparr>
                    else x) db"
    by (simp add: clickPunchOut_def punchOutDisabled_def isPunchedIn_def handlePunchOut_store
        apply_update_def punch_out_payload_def)
  have h: "query_today (todayError faults) emp' today db = Inr (Some c) \<and> punch_out_time c \<noteq> None
        \<longrightarrow>
        clickPunchOut employee now fault db'
            (fetchAttendance emp' today clock faults db s)
          = (fetchAttendance emp' today clock faults db s, db')"
  proof
    assume q: "query_today (todayError faults) emp' today db = Inr (Some c) \<and> punch_out_time c \<noteq> None"
    then have "todayRecord (fetchAttendance emp' today clock faults db s) = Some c"
      by (intro fetchAttendance_todayRecord) simp
    with q have "\<not> isPunchedIn (fetchAttendance emp' today clock faults db s)"
      by (simp add: isPunchedIn_def)
    with d show "clickPunchOut employee now fault db'
            (fetchAttendance emp' today clock faults db s)
          = (fetchAttendance emp' today clock faults db s, db')" by blast
  qed
  from a b c [of s] d [of s db] e f g h show ?thesis by blast
qed

text \<open>
  Examples: the handler with no record loaded; a click with the closed row loaded; a
  click with the open row loaded, which closes the stored row; and a click after the
  reload that followed.
\<close>

theorem punch_out_acts_on_loaded_copy_witness:
  "handlePunchOut (Some ''e1'') 68400000 None [sample_closed_row] (sample_session None)
     = (sample_session None, [sample_closed_row])
   \<and> clickPunchOut (Some ''e1'') 68400000 None [sample_closed_row]
        (sample_session (Some sample_closed_row))
     = (sample_session (Some sample_closed_row), [sample_closed_row])
   \<and> snd (clickPunchOut (Some ''e1'') 62100000 None [sample_open_row]
        (sample_session (Some sample_open_row))) = [sample_closed_row]
   \<and> clickPunchOut (Some ''e1'') 68400000 None [sample_closed_row]
        (fetchAttendance ''e1'' (2024, 3, 5) (2024, 3, 5)
           \<lparr>todayError = None, historyError = None, monthError = None\<rparr>
           [sample_closed_row] sample_after_punch_out)
     = (fetchAttendance ''e1'' (2024, 3, 5) (2024, 3, 5)
           \<lparr>todayError = None, historyError = None, monthError = None\<rparr>
           [sample_closed_row] sample_after_punch_out, [sample_closed_row])"
proof -
  let ?f = "\<lparr>todayError = None, historyError = None, monthError = None\<rparr>"
  let ?o = "sample_session (Some sample_open_row)"
  have n: "todayRecord (sample_session None) = None" by (simp add: sample_session_def)
  have c: "\<not> isPunchedIn (sample_session (Some sample_closed_row))"
    by (simp add: isPunchedIn_def sample_session_def sample_closed_row_def)
  have o: "todayRecord ?o = Some sample_open_row \<and> punch_out_time sample_open_row = None
             \<and> \<not> punching ?o \<and> \<not> loading ?o \<and> truthy_id (Some ''e1'') = Some ''e1''"
    by (simp add: sample_session_def sample_open_row_def truthy_id_def)
  have q: "query_today (todayError ?f) ''e1'' (2024, 3, 5) [sample_closed_row]
             = Inr (Some sample_closed_row) \<and> punch_out_time sample_closed_row \<noteq> None"
    by (simp add: query_today_def maybeSingle_def sample_closed_row_def)
  note T = punch_out_acts_on_loaded_copy
  from T [where s = "sample_session None" and employee = "Some ''e1''" and now = 68400000
            and fault = None and db = "[sample_closed_row]"] n
  have 1: "handlePunchOut (Some ''e1'') 68400000 None [sample_closed_row] (sample_session None)
     = (sample_session None, [sample_closed_row])" by blast
  from T [where s = "sample_session (Some sample_closed_row)" and employee = "Some ''e1''"
            and now = 68400000 and fault = None and db = "[sample_closed_row]"] c
  have 2: "clickPunchOut (Some ''e1'') 68400000 None [sample_closed_row]
        (sample_session (Some sample_closed_row))
     = (sample_session (Some sample_closed_row), [sample_closed_row])" by blast
  from T [where s = ?o and employee = "Some ''e1''" and now = 62100000
            and db = "[sample_open_row]" and r = sample_open_row and emp = "''e1''"] o
  have "snd (clickPunchOut (Some ''e1'') 62100000 None [sample_open_row] ?o) =
          map (\<lambda>x. if rec_id x = rec_id sample_open_row
                    then x\<lparr>punch_out_time := Some 62100000,
                           total_hours := Some (parseFloat (toFixed 2
                              (hoursWorked 62100000 sample_open_row))),
                           status := Some (punch_out_status
                              (hoursWorked 62100000 sample_open_row))\<rparr>
                    else x) [sample_open_row]" by blast
  then have 3: "snd (clickPunchOut (Some ''e1'') 62100000 None [sample_open_row] ?o)
                  = [sample_closed_row]"
    using sample_punch_out_rows(1)
    by (simp add: apply_update_def punch_out_payload_def)
  from T [where faults = ?f and emp' = "''e1''" and today = "(2024, 3, 5)"
            and db = "[sample_closed_row]" and c = sample_closed_row
            and employee = "Some ''e1''" and now = 68400000 and fault = None
            and db' = "[sample_closed_row]" and clock = "(2024, 3, 5)"
            and s = sample_after_punch_out] q
  have 4: "clickPunchOut (Some ''e1'') 68400000 None [sample_closed_row]
        (fetchAttendance ''e1'' (2024, 3, 5) (2024, 3, 5) ?f
           [sample_closed_row] sample_after_punch_out)
     = (fetchAttendance ''e1'' (2024, 3, 5) (2024, 3, 5) ?f
           [sample_closed_row] sample_after_punch_out, [sample_closed_row])" by blast
  from 1 2 3 4 show ?thesis by blast
qed

section \<open>Punch-in\<close>

text \<open>
  Claim C8. With an employee signed in, no injected fault and no row yet for the employee
  and today's date, \<^verbatim>\<open>handlePunchIn\<close> sends the payload
  \<^verbatim>\<open>{employee_id, attendance_date: today, punch_in_time: now, status: 'present'}\<close> and the
  store gains exactly one row: for that employee and date, opened at \<open>now\<close>, with status
  \<^verbatim>\<open>present\<close> and with closing time and total hours absent. The success toast is shown.
\<close>

theorem punch_in_inserts_open_record:
  assumes "truthy_id employee = Some emp"
      and "filter (\<lambda>r. employee_id r = emp \<and> attendance_date r = today) db = []"
  shows "punch_in_payload emp today now =
           \<lparr>ins_employee_id = emp, ins_attendance_date = today,
            ins_punch_in_time = now, ins_status = ''present''\<rparr>
       \<and> handlePunchIn employee today now None fresh db s =
           (s\<lparr>toasts := toasts s @ [\<lparr>title = ''Punched In'', description = PunchedInAtClock,
                                      variant = Default\<rparr>],
              punching := False\<rparr>,
            db @ [\<lparr>rec_id = fresh, employee_id = emp, attendance_date = today,
                   punch_in_time = now, punch_out_time = None, total_hours = None,
                   status = Some ''present'', rec_notes = None\<rparr>])"
  using assms by (simp add: handlePunchIn_def store_insert_def punch_in_payload_def)

text \<open>
  Example: a punch-in at 09:00:00 into an empty store creates the open sample row.
\<close>

theorem punch_in_inserts_open_record_witness:
  "snd (handlePunchIn (Some ''e1'') (2024, 3, 5) 32400000 None ''a1'' [] (sample_session None))
     = [sample_open_row]"
proof -
  have e: "truthy_id (Some ''e1'') = Some ''e1''" by (simp add: truthy_id_def)
  have f: "filter (\<lambda>r. employee_id r = ''e1'' \<and> attendance_date r = (2024, 3, 5)) [] = []"
    by simp
  from punch_in_inserts_open_record [OF e f, of 32400000 "''a1''" "sample_session None"]
  show ?thesis by (simp add: sample_open_row_def)
qed

text \<open>
  Claim C3. When the insert of \<^verbatim>\<open>handlePunchIn\<close> is rejected with error code
  \<^verbatim>\<open>23505\<close>, the handler shows the toast ``Already Punched In'' and nothing else, and the
  store is unchanged; when it is rejected with any other code, the handler shows the
  toast ``Error'' (with the error's message, or ``Failed to punch in'' when that is empty)
  and the store is unchanged. A store that already holds a row for the employee and
  today rejects the insert as a duplicate, so a second punch-in gives the first outcome.
\<close>

theorem punch_in_duplicate_and_generic_errors:
  assumes "truthy_id employee = Some emp"
  shows "(code e = ''23505'' \<longrightarrow>
            handlePunchIn employee today now (Some e) fresh db s =
              (s\<lparr>toasts := toasts s @ [\<lparr>title = ''Already Punched In'',
                   description = Plain ''You have already punched in today'',
                   variant = Destructive\<rparr>],
                 punching := False\<rparr>, db))
       \<and> (code e \<noteq> ''23505'' \<longrightarrow>
            handlePunchIn employee today now (Some e) fresh db s =
              (s\<lparr>toasts := toasts s @ [\<lparr>title = ''Error'',
                   description = Plain (if message e = [] then ''Failed to punch in''
                                        else message e),
                   variant = Destructive\<rparr>],
                 punching := False\<rparr>, db))
       \<and> ((\<exists>r \<in> set db. employee_id r = emp \<and> attendance_date r = today) \<longrightarrow>
            handlePunchIn employee today now None fresh db s =
              (s\<lparr>toasts := toasts s @ [\<lparr>title = ''Already Punched In'',
                   description = Plain ''You have already punched in today'',
                   variant = Destructive\<rparr>],
                 punching := False\<rparr>, db))"
proof (intro conjI impI)
  assume "code e = ''23505''"
  then show "handlePunchIn employee today now (Some e) fresh db s =
              (s\<lparr>toasts := toasts s @ [\<lparr>title = ''Already Punched In'',
                   description = Plain ''You have already punched in today'',
                   variant = Destructive\<rparr>],
                 punching := False\<rparr>, db)"
    using assms by (simp add: handlePunchIn_def store_insert_def)
next
  assume "code e \<noteq> ''23505''"
  then show "handlePunchIn employee today now (Some e) fresh db s =
              (s\<lparr>toasts := toasts s @ [\<lparr>title = ''Error'',
                   description = Plain (if message e = [] then ''Failed to punch in''
                                        else message e),
                   variant = Destructive\<rparr>],
                 punching := False\<rparr>, db)"
    using assms by (simp add: handlePunchIn_def store_insert_def message_or_def)
next
  assume "\<exists>r \<in> set db. employee_id r = emp \<and> attendance_date r = today"
  then have "filter (\<lambda>r. employee_id r = emp \<and> attendance_date r = today) db \<noteq> []"
    by (auto simp: filter_empty_conv)
  then show "handlePunchIn employee today now None fresh db s =
              (s\<lparr>toasts := toasts s @ [\<lparr>title = ''Already Punched In'',
                   description = Plain ''You have already punched in today'',
                   variant = Destructive\<rparr>],
                 punching := False\<rparr>, db)"
    using assms by (simp add: handlePunchIn_def store_insert_def punch_in_payload_def)
qed

text \<open>
  Examples: a rejection with code 23505, a rejection with another code, and a second
  punch-in on a store that already holds today's row.
\<close>

theorem punch_in_duplicate_and_generic_errors_witness:
  "handlePunchIn (Some ''e1'') (2024, 3, 5) 61200000 (Some sample_duplicate) ''a2'' [] (sample_session None)
     = ((sample_session None)\<lparr>toasts := [\<lparr>title = ''Already Punched In'',
                   description = Plain ''You have already punched in today'',
                   variant = Destructive\<rparr>]\<rparr>, [])
   \<and> handlePunchIn (Some ''e1'') (2024, 3, 5) 61200000 (Some sample_error) ''a2'' [] (sample_session None)
     = ((sample_session None)\<lparr>toasts := [\<lparr>title = ''Error'',
                   description = Plain ''connection failure'',
                   variant = Destructive\<rparr>]\<rparr>, [])
   \<and> handlePunchIn (Some ''e1'') (2024, 3, 5) 61200000 None ''a2'' [sample_open_row] (sample_session None)
     = ((sample_session None)\<lparr>toasts := [\<lparr>title = ''Already Punched In'',
                   description = Plain ''You have already punched in today'',
                   variant = Destructive\<rparr>]\<rparr>, [sample_open_row])"
proof -
  have e: "truthy_id (Some ''e1'') = Some ''e1''" by (simp add: truthy_id_def)
  have d: "code sample_duplicate = ''23505''" by (simp add: sample_duplicate_def)
  have g: "code sample_error \<noteq> ''23505''" "message sample_error = ''connection failure''"
    by (simp_all add: sample_error_def)
  have x: "\<exists>r \<in> set [sample_open_row]. employee_id r = ''e1'' \<and> attendance_date r = (2024, 3, 5)"
    by (simp add: sample_open_row_def)
  have s: "toasts (sample_session None) = []" "punching (sample_session None) = False"
    by (simp_all add: sample_session_def)
  have p: "(sample_session None)\<lparr>toasts := ts, punching := False\<rparr> = (sample_session None)\<lparr>toasts := ts\<rparr>" for ts
    by (simp add: sample_session_def)
  from punch_in_duplicate_and_generic_errors [OF e, of sample_duplicate "(2024, 3, 5)" 61200000 "''a2''" "[]" "sample_session None"] d
  have 1: "handlePunchIn (Some ''e1'') (2024, 3, 5) 61200000 (Some sample_duplicate) ''a2'' [] (sample_session None)
     = ((sample_session None)\<lparr>toasts := [\<lparr>title = ''Already Punched In'',
                   description = Plain ''You have already punched in today'',
                   variant = Destructive\<rparr>]\<rparr>, [])"
    by (simp add: s p)
  from punch_in_duplicate_and_generic_errors [OF e, of sample_error "(2024, 3, 5)" 61200000 "''a2''" "[]" "sample_session None"] g
  have 2: "handlePunchIn (Some ''e1'') (2024, 3, 5) 61200000 (Some sample_error) ''a2'' [] (sample_session None)
     = ((sample_session None)\<lparr>toasts := [\<lparr>title = ''Error'',
                   description = Plain ''connection failure'',
                   variant = Destructive\<rparr>]\<rparr>, [])"
    by (simp add: s p)
  from punch_in_duplicate_and_generic_errors [OF e, of sample_error "(2024, 3, 5)" 61200000 "''a2''" "[sample_open_row]" "sample_session None"] x
  have 3: "handlePunchIn (Some ''e1'') (2024, 3, 5) 61200000 None ''a2'' [sample_open_row] (sample_session None)
     = ((sample_session None)\<lparr>toasts := [\<lparr>title = ''Already Punched In'',
                   description = Plain ''You have already punched in today'',
                   variant = Destructive\<rparr>]\<rparr>, [sample_open_row])"
    by (simp add: s p)
  from 1 2 3 show ?thesis by simp
qed

section \<open>Loading\<close>

text \<open>
  Claim C4, as stated, fails: \<^verbatim>\<open>fetchAttendance\<close> calls \<^verbatim>\<open>setTodayRecord\<close> before it
  sends the history query. Here the open row is loaded, the store holds the closed row,
  and the history query fails: the error is reported, but \<^verbatim>\<open>todayRecord\<close> has already
  been replaced by the closed row.
\<close>

theorem load_partial_overwrite_counterexample:
  "todayRecord (fetchAttendance ''e1'' (2024, 3, 5) (2024, 3, 5)
       \<lparr>todayError = None, historyError = Some sample_error, monthError = None\<rparr>
       [sample_closed_row]
       ((sample_session (Some sample_open_row))\<lparr>attendanceHistory := [sample_open_row]\<rparr>))
     = Some sample_closed_row
   \<and> todayRecord ((sample_session (Some sample_open_row))\<lparr>attendanceHistory := [sample_open_row]\<rparr>)
     = Some sample_open_row
   \<and> sample_closed_row \<noteq> sample_open_row
   \<and> toasts (fetchAttendance ''e1'' (2024, 3, 5) (2024, 3, 5)
       \<lparr>todayError = None, historyError = Some sample_error, monthError = None\<rparr>
       [sample_closed_row]
       ((sample_session (Some sample_open_row))\<lparr>attendanceHistory := [sample_open_row]\<rparr>))
     = [\<lparr>title = ''Error'', description = Plain ''Failed to load attendance data'',
         variant = Destructive\<rparr>]"
  by (simp add: fetchAttendance_def query_today_def query_history_def maybeSingle_def
      load_failed_def sample_session_def sample_closed_row_def sample_open_row_def)

text \<open>
  Claim C4, amended. Every failing query is reported by the toast ``Failed to load
  attendance data'', and an output is unchanged if its own query or an earlier one
  failed: when the query for today's record fails, the three outputs keep their prior
  values; when the history query fails, \<^verbatim>\<open>todayRecord\<close> already holds the fresh result
  while \<^verbatim>\<open>attendanceHistory\<close> and \<^verbatim>\<open>monthlyHours\<close> keep their prior values; when the
  monthly query fails, only \<^verbatim>\<open>monthlyHours\<close> keeps its prior value. In each case
  \<^verbatim>\<open>loading\<close> ends false.
\<close>

theorem load_failure_state:
  "(query_today (todayError faults) emp today db = Inl e \<longrightarrow>
      fetchAttendance emp today clock faults db s =
        s\<lparr>loading := False,
          toasts := toasts s @ [\<lparr>title = ''Error'',
                                 description = Plain ''Failed to load attendance data'',
                                 variant = Destructive\<rparr>]\<rparr>)
   \<and> (query_today (todayError faults) emp today db = Inr t
        \<and> query_history (historyError faults) emp (thirtyDaysBefore clock) db = Inl e \<longrightarrow>
      fetchAttendance emp today clock faults db s =
        s\<lparr>todayRecord := t, loading := False,
          toasts := toasts s @ [\<lparr>title = ''Error'',
                                 description = Plain ''Failed to load attendance data'',
                                 variant = Destructive\<rparr>]\<rparr>)
   \<and> (query_today (todayError faults) emp today db = Inr t
        \<and> query_history (historyError faults) emp (thirtyDaysBefore clock) db = Inr h
        \<and> query_month (monthError faults) emp (startOfMonth clock) (endOfMonth clock) db = Inl e \<longrightarrow>
      fetchAttendance emp today clock faults db s =
        s\<lparr>todayRecord := t, attendanceHistory := h, loading := False,
          toasts := toasts s @ [\<lparr>title = ''Error'',
                                 description = Plain ''Failed to load attendance data'',
                                 variant = Destructive\<rparr>]\<rparr>)"
  by (simp add: fetchAttendance_def load_failed_def)

text \<open>
  Examples: the open row loaded, the store holding the closed row, and the first, the
  second or the third query failing.
\<close>

theorem load_failure_state_witness:
  "fetchAttendance ''e1'' (2024, 3, 5) (2024, 3, 5)
       \<lparr>todayError = Some sample_error, historyError = None, monthError = None\<rparr>
       [sample_closed_row] (sample_session (Some sample_open_row))
     = (sample_session (Some sample_open_row))\<lparr>toasts :=
          [\<lparr>title = ''Error'', description = Plain ''Failed to load attendance data'',
            variant = Destructive\<rparr>]\<rparr>
   \<and> fetchAttendance ''e1'' (2024, 3, 5) (2024, 3, 5)
       \<lparr>todayError = None, historyError = Some sample_error, monthError = None\<rparr>
       [sample_closed_row] (sample_session (Some sample_open_row))
     = (sample_session (Some sample_closed_row))\<lparr>toasts :=
          [\<lparr>title = ''Error'', description = Plain ''Failed to load attendance data'',
            variant = Destructive\<rparr>]\<rparr>
   \<and> fetchAttendance ''e1'' (2024, 3, 5) (2024, 3, 5)
       \<lparr>todayError = None, historyError = None, monthError = Some sample_error\<rparr>
       [sample_closed_row] (sample_session (Some sample_open_row))
     = (sample_session (Some sample_closed_row))\<lparr>attendanceHistory := [sample_closed_row],
          toasts :=
          [\<lparr>title = ''Error'', description = Plain ''Failed to load attendance data'',
            variant = Destructive\<rparr>]\<rparr>"
proof -
  let ?s = "sample_session (Some sample_open_row)"
  have q1: "query_today (Some sample_error) ''e1'' (2024, 3, 5) [sample_closed_row] = Inl sample_error"
    by (simp add: query_today_def)
  have q2: "query_today None ''e1'' (2024, 3, 5) [sample_closed_row] = Inr (Some sample_closed_row)"
    by (simp add: query_today_def maybeSingle_def sample_closed_row_def)
  have h1: "query_history (Some sample_error) ''e1'' (thirtyDaysBefore (2024, 3, 5)) [sample_closed_row]
              = Inl sample_error"
    by (simp add: query_history_def)
  have t30: "thirtyDaysBefore (2024, 3, 5) = (2024, 2, 4)"
    by (simp add: thirtyDaysBefore_def eval_nat_numeral days_in_month_def leap_year_def)
  have h2: "query_history None ''e1'' (thirtyDaysBefore (2024, 3, 5)) [sample_closed_row]
              = Inr [sample_closed_row]"
    by (simp add: t30 query_history_def sample_closed_row_def less_eq_prod_def less_prod_def)
  have m1: "query_month (Some sample_error) ''e1'' (startOfMonth (2024, 3, 5)) (endOfMonth (2024, 3, 5))
              [sample_closed_row] = Inl sample_error"
    by (simp add: query_month_def)
  from load_failure_state [where faults = "\<lparr>todayError = Some sample_error, historyError = None, monthError = None\<rparr>"
          and emp = "''e1''" and today = "(2024, 3, 5)" and db = "[sample_closed_row]" and e = sample_error
          and clock = "(2024, 3, 5)" and s = ?s] q1
  have 1: "fetchAttendance ''e1'' (2024, 3, 5) (2024, 3, 5)
       \<lparr>todayError = Some sample_error, historyError = None, monthError = None\<rparr>
       [sample_closed_row] ?s
     = ?s\<lparr>toasts :=
          [\<lparr>title = ''Error'', description = Plain ''Failed to load attendance data'',
            variant = Destructive\<rparr>]\<rparr>"
    by (simp add: sample_session_def)
  from load_failure_state [where faults = "\<lparr>todayError = None, historyError = Some sample_error, monthError = None\<rparr>"
          and emp = "''e1''" and today = "(2024, 3, 5)" and db = "[sample_closed_row]" and e = sample_error
          and clock = "(2024, 3, 5)" and s = ?s and t = "Some sample_closed_row"] q2 h1
  have 2: "fetchAttendance ''e1'' (2024, 3, 5) (2024, 3, 5)
       \<lparr>todayError = None, historyError = Some sample_error, monthError = None\<rparr>
       [sample_closed_row] ?s
     = (sample_session (Some sample_closed_row))\<lparr>toasts :=
          [\<lparr>title = ''Error'', description = Plain ''Failed to load attendance data'',
            variant = Destructive\<rparr>]\<rparr>"
    by (simp add: sample_session_def)
  from load_failure_state [where faults = "\<lparr>todayError = None, historyError = None, monthError = Some sample_error\<rparr>"
          and emp = "''e1''" and today = "(2024, 3, 5)" and db = "[sample_closed_row]" and e = sample_error
          and clock = "(2024, 3, 5)" and s = ?s and t = "Some sample_closed_row" and h = "[sample_closed_row]"] q2 h2 m1
  have 3: "fetchAttendance ''e1'' (2024, 3, 5) (2024, 3, 5)
       \<lparr>todayError = None, historyError = None, monthError = Some sample_error\<rparr>
       [sample_closed_row] ?s
     = (sample_session (Some sample_closed_row))\<lparr>attendanceHistory := [sample_closed_row],
          toasts :=
          [\<lparr>title = ''Error'', description = Plain ''Failed to load attendance data'',
            variant = Destructive\<rparr>]\<rparr>"
    by (simp add: sample_session_def)
  from 1 2 3 show ?thesis by simp
qed

text \<open>
  Claim C5, as stated, fails: the \<^verbatim>\<open>reduce\<close> adds binary64 numbers from the left in the
  order in which the query returns the rows, and binary64 addition rounds. Here three rows
  of March hold the numbers 7.46, 7.67 and 7.72: in this order \<^verbatim>\<open>monthlyHours\<close> is
  22.849999999999998 and the card shows 22.8; with the same rows in the reverse order it
  is 22.85 and the card shows 22.9.
\<close>

theorem monthly_hours_order_counterexample:
  "monthlyHours (fetchAttendance ''e1'' (2024, 3, 15) (2024, 3, 15)
       \<lparr>todayError = None, historyError = None, monthError = None\<rparr>
       sample_order_rows (sample_session None)) = 6431703217838489 / 281474976710656
   \<and> monthlyHours (fetchAttendance ''e1'' (2024, 3, 15) (2024, 3, 15)
       \<lparr>todayError = None, historyError = None, monthError = None\<rparr>
       (rev sample_order_rows) (sample_session None)) = 3215851608919245 / 140737488355328
   \<and> monthlyHours (fetchAttendance ''e1'' (2024, 3, 15) (2024, 3, 15)
       \<lparr>todayError = None, historyError = None, monthError = None\<rparr>
       (rev sample_order_rows) (sample_session None))
     \<noteq> monthlyHours (fetchAttendance ''e1'' (2024, 3, 15) (2024, 3, 15)
       \<lparr>todayError = None, historyError = None, monthError = None\<rparr>
       sample_order_rows (sample_session None))
   \<and> monthlyHoursCard (fetchAttendance ''e1'' (2024, 3, 15) (2024, 3, 15)
       \<lparr>todayError = None, historyError = None, monthError = None\<rparr>
       sample_order_rows (sample_session None)) = HoursText (114 / 5)
   \<and> monthlyHoursCard (fetchAttendance ''e1'' (2024, 3, 15) (2024, 3, 15)
       \<lparr>todayError = None, historyError = None, monthError = None\<rparr>
       (rev sample_order_rows) (sample_session None)) = HoursText (229 / 10)"
proof -
  let ?f = "\<lparr>todayError = None, historyError = None, monthError = None\<rparr>"
  have q: "query_today (todayError ?f) ''e1'' (2024, 3, 15) sample_order_rows = Inr None"
          "query_today (todayError ?f) ''e1'' (2024, 3, 15) (rev sample_order_rows) = Inr None"
    by (simp_all add: query_today_def maybeSingle_def sample_order_rows_def sample_closed_row_def)
  have h: "historyError ?f = None" "monthError ?f = None" by simp_all
  have m: "map total_hours
             (filter (\<lambda>r. employee_id r = ''e1'' \<and> startOfMonth (2024, 3, 15) \<le> attendance_date r
                           \<and> attendance_date r \<le> endOfMonth (2024, 3, 15)) sample_order_rows)
           = [Some (8399213305045975 / 1125899906842624),
              Some (4317826142741463 / 562949953421312),
              Some (8691947280825057 / 1125899906842624)]"
    unfolding sample_order_rows_def sample_hours_numbers
    by (simp add: sample_closed_row_def days_in_month_def less_eq_prod_def less_prod_def)
  have m': "map total_hours
             (filter (\<lambda>r. employee_id r = ''e1'' \<and> startOfMonth (2024, 3, 15) \<le> attendance_date r
                           \<and> attendance_date r \<le> endOfMonth (2024, 3, 15)) (rev sample_order_rows))
           = [Some (8691947280825057 / 1125899906842624),
              Some (4317826142741463 / 562949953421312),
              Some (8399213305045975 / 1125899906842624)]"
    unfolding sample_order_rows_def sample_hours_numbers
    by (simp add: sample_closed_row_def days_in_month_def less_eq_prod_def less_prod_def)
  have 1: "monthlyHours (fetchAttendance ''e1'' (2024, 3, 15) (2024, 3, 15) ?f
       sample_order_rows (sample_session None)) = 6431703217838489 / 281474976710656"
    by (simp only: monthlyHours_loaded [OF q(1) h] m sample_order_sum)
  have 2: "monthlyHours (fetchAttendance ''e1'' (2024, 3, 15) (2024, 3, 15) ?f
       (rev sample_order_rows) (sample_session None)) = 3215851608919245 / 140737488355328"
    by (simp only: monthlyHours_loaded [OF q(2) h] m' sample_order_sum_rev)
  have 3: "monthlyHoursCard (fetchAttendance ''e1'' (2024, 3, 15) (2024, 3, 15) ?f
       sample_order_rows (sample_session None)) = HoursText (114 / 5)"
    unfolding monthlyHoursCard_def 1 by (simp add: toFixed_def)
  have 4: "monthlyHoursCard (fetchAttendance ''e1'' (2024, 3, 15) (2024, 3, 15) ?f
       (rev sample_order_rows) (sample_session None)) = HoursText (229 / 10)"
    unfolding monthlyHoursCard_def 2 by (simp add: toFixed_def)
  have 5: "monthlyHours (fetchAttendance ''e1'' (2024, 3, 15) (2024, 3, 15) ?f
       (rev sample_order_rows) (sample_session None))
     \<noteq> monthlyHours (fetchAttendance ''e1'' (2024, 3, 15) (2024, 3, 15) ?f
       sample_order_rows (sample_session None))"
    unfolding 1 2 by simp
  from 1 2 3 4 5 show ?thesis by blast
qed

text \<open>
  Claim C5, amended. After a load in which the three queries succeed, \<^verbatim>\<open>monthlyHours\<close>
  is the binary64 sum, accumulated from 0 from the left in the order of the rows, of
  \<^verbatim>\<open>total_hours\<close> (an absent value counting as 0) over the employee's rows whose date is
  in the calendar month of the clock (the dates of the rows being calendar dates). This
  holds for every order of the same rows; the rows that are summed, and their exact sum,
  do not depend on the order, the rounded result can.
\<close>

theorem monthly_hours_float_sum_of_month:
  assumes "\<forall>r \<in> set db. valid_date (attendance_date r)"
      and "query_today (todayError faults) emp today db = Inr t"
      and "historyError faults = None" and "monthError faults = None"
  shows "\<forall>db'. mset db' = mset db \<longrightarrow>
           monthlyHours (fetchAttendance emp today clock faults db' s) =
             foldl (\<lambda>sum h. binary64 (sum + h)) 0
               (map (\<lambda>r. case total_hours r of None \<Rightarrow> 0 | Some h \<Rightarrow> h)
                  (filter (\<lambda>r. employee_id r = emp \<and> same_month (attendance_date r) clock) db'))
           \<and> mset (filter (\<lambda>r. employee_id r = emp \<and> same_month (attendance_date r) clock) db')
               = mset (filter (\<lambda>r. employee_id r = emp \<and> same_month (attendance_date r) clock) db)
           \<and> sum_list (map (\<lambda>r. case total_hours r of None \<Rightarrow> 0 | Some h \<Rightarrow> h)
                  (filter (\<lambda>r. employee_id r = emp \<and> same_month (attendance_date r) clock) db'))
               = sum_list (map (\<lambda>r. case total_hours r of None \<Rightarrow> 0 | Some h \<Rightarrow> h)
                  (filter (\<lambda>r. employee_id r = emp \<and> same_month (attendance_date r) clock) db))"
proof (intro allI impI)
  fix db' assume p: "mset db' = mset db"
  let ?P = "\<lambda>r. employee_id r = emp \<and> same_month (attendance_date r) clock"
  let ?h = "\<lambda>r. case total_hours r of None \<Rightarrow> (0::real) | Some h \<Rightarrow> h"
  from p have "set db' = set db" by (rule mset_eq_setD)
  with assms(1) have v: "\<forall>r \<in> set db'. valid_date (attendance_date r)" by simp
  have q: "query_today (todayError faults) emp today db' = Inr t"
    using query_today_mset [OF p] assms(2) by simp
  have 1: "monthlyHours (fetchAttendance emp today clock faults db' s) =
             foldl (\<lambda>sum h. binary64 (sum + h)) 0 (map ?h (filter ?P db'))"
    by (simp only: monthlyHours_loaded [OF q assms(3,4)] month_filter [OF v] sum_hours_fold)
  have 2: "mset (filter ?P db') = mset (filter ?P db)"
    by (simp only: mset_filter p)
  then have "mset (map ?h (filter ?P db')) = mset (map ?h (filter ?P db))"
    by (simp only: mset_map)
  then have "sum_mset (mset (map ?h (filter ?P db'))) = sum_mset (mset (map ?h (filter ?P db)))"
    by (simp only:)
  then have 3: "sum_list (map ?h (filter ?P db')) = sum_list (map ?h (filter ?P db))"
    by (simp only: sum_mset_sum_list)
  from 1 2 3 show "monthlyHours (fetchAttendance emp today clock faults db' s) =
             foldl (\<lambda>sum h. binary64 (sum + h)) 0 (map ?h (filter ?P db'))
           \<and> mset (filter ?P db') = mset (filter ?P db)
           \<and> sum_list (map ?h (filter ?P db')) = sum_list (map ?h (filter ?P db))"
    by blast
qed

text \<open>
  Example: for the five sample rows and a clock in March 2024 every addition is exact and
  the sum is 8.25 + 0 + 4.5 = 12.75, also with the rows reversed.
\<close>

theorem monthly_hours_float_sum_of_month_witness:
  "monthlyHours (fetchAttendance ''e1'' (2024, 3, 15) (2024, 3, 15)
       \<lparr>todayError = None, historyError = None, monthError = None\<rparr>
       sample_month_rows (sample_session None)) = 51 / 4
   \<and> monthlyHours (fetchAttendance ''e1'' (2024, 3, 15) (2024, 3, 15)
       \<lparr>todayError = None, historyError = None, monthError = None\<rparr>
       (rev sample_month_rows) (sample_session None)) = 51 / 4"
proof -
  let ?f = "\<lparr>todayError = None, historyError = None, monthError = None\<rparr>"
  let ?P = "\<lambda>r. employee_id r = ''e1'' \<and> same_month (attendance_date r) (2024, 3, 15)"
  let ?h = "\<lambda>r. case total_hours r of None \<Rightarrow> (0::real) | Some h \<Rightarrow> h"
  have v: "\<forall>r \<in> set sample_month_rows. valid_date (attendance_date r)"
    by (simp add: sample_month_rows_def sample_closed_row_def sample_open_row_def
        valid_date_def days_in_month_def leap_year_def)
  have q: "query_today (todayError ?f) ''e1'' (2024, 3, 15) sample_month_rows = Inr None"
    by (simp add: query_today_def maybeSingle_def sample_month_rows_def
        sample_closed_row_def sample_open_row_def)
  have h: "historyError ?f = None" "monthError ?f = None" by simp_all
  have a: "foldl (\<lambda>sum h. binary64 (sum + h)) 0 (map ?h (filter ?P sample_month_rows)) = 51 / 4"
    using sample_month_sum(1)
    by (simp add: sample_month_rows_def sample_closed_row_def sample_open_row_def same_month_def
        sum_hours_def js_add_def or_zero_def)
  have b: "foldl (\<lambda>sum h. binary64 (sum + h)) 0 (map ?h (filter ?P (rev sample_month_rows)))
             = 51 / 4"
    using sample_month_sum(2)
    by (simp add: sample_month_rows_def sample_closed_row_def sample_open_row_def same_month_def
        sum_hours_def js_add_def or_zero_def)
  note T = monthly_hours_float_sum_of_month [OF v q h, of "(2024, 3, 15)" "sample_session None"]
  have m1: "mset sample_month_rows = mset sample_month_rows" by simp
  have m2: "mset (rev sample_month_rows) = mset sample_month_rows" by simp
  from T m1 have 1: "monthlyHours (fetchAttendance ''e1'' (2024, 3, 15) (2024, 3, 15) ?f
                     sample_month_rows (sample_session None)) =
             foldl (\<lambda>sum h. binary64 (sum + h)) 0 (map ?h (filter ?P sample_month_rows))"
    by blast
  from T m2 have 2: "monthlyHours (fetchAttendance ''e1'' (2024, 3, 15) (2024, 3, 15) ?f
                     (rev sample_month_rows) (sample_session None)) =
             foldl (\<lambda>sum h. binary64 (sum + h)) 0 (map ?h (filter ?P (rev sample_month_rows)))"
    by blast
  show ?thesis by (simp only: 1 2 a b)
qed

section \<open>Derived values\<close>

text \<open>
  Claim C7. \<^verbatim>\<open>getStatus\<close> is \<^verbatim>\<open>absent\<close> when no record is loaded; otherwise the stored
  status when that is \<^verbatim>\<open>present\<close> or \<^verbatim>\<open>partial\<close>; otherwise \<^verbatim>\<open>present\<close> when the
  closing time is absent (the opening time of a row is always set); otherwise
  \<^verbatim>\<open>absent\<close>.
\<close>

theorem display_status_cases:
  "getStatus s =
     (case todayRecord s of
        None \<Rightarrow> ''absent''
      | Some r \<Rightarrow>
          if status r = Some ''present'' \<or> status r = Some ''partial'' then the (status r)
          else if punch_out_time r = None then ''present''
          else ''absent'')"
  by (auto simp: getStatus_def split: option.splits)

text \<open>
  Examples: no record; the closed row; an open row without a status; a closed row stored
  as \<^verbatim>\<open>absent\<close>; a closed row stored as \<^verbatim>\<open>partial\<close>.
\<close>

theorem display_status_cases_witness:
  "getStatus (sample_session None) = ''absent''
   \<and> getStatus (sample_session (Some sample_closed_row)) = ''present''
   \<and> getStatus (sample_session (Some (sample_open_row\<lparr>status := None\<rparr>))) = ''present''
   \<and> getStatus (sample_session (Some (sample_closed_row\<lparr>status := Some ''absent''\<rparr>)))
       = ''absent''
   \<and> getStatus (sample_session (Some (sample_closed_row\<lparr>status := Some ''partial''\<rparr>)))
       = ''partial''"
  using display_status_cases [of "sample_session None"]
    display_status_cases [of "sample_session (Some sample_closed_row)"]
    display_status_cases [of "sample_session (Some (sample_open_row\<lparr>status := None\<rparr>))"]
    display_status_cases
      [of "sample_session (Some (sample_closed_row\<lparr>status := Some ''absent''\<rparr>))"]
    display_status_cases
      [of "sample_session (Some (sample_closed_row\<lparr>status := Some ''partial''\<rparr>))"]
  by (simp add: sample_session_def sample_closed_row_def sample_open_row_def)

text \<open>
  Claim C10. The ``Avg Hours/Day'' card divides \<^verbatim>\<open>monthlyHours\<close> by
  \<open>max (presentDays + partialDays) 1\<close>, which is at least 1 and so never zero, for every
  state; with an empty history the card shows \<^verbatim>\<open>'--'\<close>, and with a non-empty history it
  shows the binary64 quotient (printed with one decimal).
\<close>

theorem average_denominator_positive:
  "avgDenominator s = max (presentDays s + partialDays s) 1
   \<and> 1 \<le> avgDenominator s
   \<and> (of_nat (avgDenominator s) :: real) \<noteq> 0
   \<and> avgHoursPerDay (s\<lparr>attendanceHistory := []\<rparr>) = Dashes
   \<and> avgHoursPerDay (s\<lparr>attendanceHistory := r # rs\<rparr>) =
       HoursText (toFixed 1 (js_div (monthlyHours s)
                    (of_nat (avgDenominator (s\<lparr>attendanceHistory := r # rs\<rparr>)))))"
  by (simp add: avgDenominator_def avgHoursPerDay_def)

text \<open>
  Examples: 12.75 monthly hours over one present and one partial day print as 6.4; over a
  history with an absent day only, the denominator is 1 and 12.8 is printed.
\<close>

theorem average_denominator_positive_witness:
  "avgHoursPerDay ((sample_session None)\<lparr>monthlyHours := 51 / 4,
       attendanceHistory := [sample_closed_row,
                             sample_closed_row\<lparr>status := Some ''partial''\<rparr>,
                             sample_closed_row\<lparr>status := Some ''absent''\<rparr>]\<rparr>)
     = HoursText (32 / 5)
   \<and> avgHoursPerDay ((sample_session None)\<lparr>monthlyHours := 51 / 4,
       attendanceHistory := [sample_closed_row\<lparr>status := Some ''absent''\<rparr>]\<rparr>)
     = HoursText (64 / 5)
   \<and> avgHoursPerDay ((sample_session None)\<lparr>monthlyHours := 51 / 4\<rparr>) = Dashes"
proof -
  let ?s = "(sample_session None)\<lparr>monthlyHours := 51 / 4\<rparr>"
  have d2: "avgDenominator (?s\<lparr>attendanceHistory := [sample_closed_row,
                             sample_closed_row\<lparr>status := Some ''partial''\<rparr>,
                             sample_closed_row\<lparr>status := Some ''absent''\<rparr>]\<rparr>) = 2"
    by (simp add: avgDenominator_def presentDays_def partialDays_def sample_closed_row_def)
  have d1: "avgDenominator (?s\<lparr>attendanceHistory :=
                             [sample_closed_row\<lparr>status := Some ''absent''\<rparr>]\<rparr>) = 1"
    by (simp add: avgDenominator_def presentDays_def partialDays_def sample_closed_row_def)
  have f2: "toFixed (Suc 0) (js_div (51 / 4) 2) = 32 / 5"
    by (simp add: js_div_def binary64_numeral toFixed_def)
  have f1: "toFixed (Suc 0) (js_div (51 / 4) 1) = 64 / 5"
    by (simp add: js_div_def binary64_numeral toFixed_def)
  have e: "?s\<lparr>attendanceHistory := []\<rparr> = ?s" by (simp add: sample_session_def)
  from average_denominator_positive [of ?s "sample_closed_row"
         "[sample_closed_row\<lparr>status := Some ''partial''\<rparr>,
           sample_closed_row\<lparr>status := Some ''absent''\<rparr>]"]
  have 1: "avgHoursPerDay (?s\<lparr>attendanceHistory := [sample_closed_row,
                             sample_closed_row\<lparr>status := Some ''partial''\<rparr>,
                             sample_closed_row\<lparr>status := Some ''absent''\<rparr>]\<rparr>)
             = HoursText (32 / 5)"
    by (simp add: d2 f2)
  from average_denominator_positive [of ?s "sample_closed_row\<lparr>status := Some ''absent''\<rparr>" "[]"]
  have 2: "avgHoursPerDay (?s\<lparr>attendanceHistory :=
                             [sample_closed_row\<lparr>status := Some ''absent''\<rparr>]\<rparr>)
             = HoursText (64 / 5)"
    by (simp add: d1 f1)
  from average_denominator_positive [of ?s sample_closed_row "[]"]
  have 3: "avgHoursPerDay ?s = Dashes"
    by (simp add: e)
  from 1 2 3 show ?thesis by simp
qed

section \<open>The order of punch times\<close>

text \<open>
  Claim C9, as stated, fails: \<^verbatim>\<open>handlePunchOut\<close> writes the clock reading \<open>now\<close> as
  closing time without comparing it with the opening time. Here the row was opened at
  09:00:00.000 and the clock reads 08:59:59.000 at punch-out (a wall clock that was set
  back): the stored closing time is before the opening time.
\<close>

theorem punch_out_not_after_punch_in_counterexample:
  "punch_out_after_punch_in [sample_open_row]
   \<and> \<not> punch_out_after_punch_in
        (snd (handlePunchOut (Some ''e1'') 32399000 None [sample_open_row]
                (sample_session (Some sample_open_row))))"
  by (simp add: punch_out_after_punch_in_def handlePunchOut_def store_update_def truthy_id_def
      sample_session_def sample_open_row_def apply_update_def punch_out_payload_def)

text \<open>
  Claim C9, amended. \<^verbatim>\<open>handlePunchIn\<close> preserves the invariant unconditionally (the row it
  adds has no closing time). \<^verbatim>\<open>handlePunchOut\<close> preserves it whenever the clock reading
  at punch-out is strictly after the opening time of the rows it patches; the code itself
  does not check this.
\<close>

theorem punch_out_after_punch_in_preserved:
  "(punch_out_after_punch_in db \<longrightarrow>
      punch_out_after_punch_in (snd (handlePunchIn employee today now fault fresh db s)))
   \<and> (punch_out_after_punch_in db \<and> todayRecord s = Some r
        \<and> (\<forall>x \<in> set db. rec_id x = rec_id r \<longrightarrow> punch_in_time x < now) \<longrightarrow>
      punch_out_after_punch_in (snd (handlePunchOut employee now fault db s)))"
proof (intro conjI impI)
  assume "punch_out_after_punch_in db"
  then show "punch_out_after_punch_in (snd (handlePunchIn employee today now fault fresh db s))"
    using handlePunchIn_rows [of employee today now fault fresh db s]
    by (auto simp: punch_out_after_punch_in_def)
next
  assume a: "punch_out_after_punch_in db \<and> todayRecord s = Some r
        \<and> (\<forall>x \<in> set db. rec_id x = rec_id r \<longrightarrow> punch_in_time x < now)"
  show "punch_out_after_punch_in (snd (handlePunchOut employee now fault db s))"
    using handlePunchOut_rows [of employee now fault db s] a
    by (auto simp: punch_out_after_punch_in_def list_all_iff apply_update_def
        punch_out_payload_def split: option.splits)
qed

text \<open>
  Examples: a punch-in next to the open row, and the punch-out at 17:15:00 of the row
  opened at 09:00:00.
\<close>

theorem punch_out_after_punch_in_preserved_witness:
  "punch_out_after_punch_in [sample_open_row]
   \<and> punch_out_after_punch_in
       (snd (handlePunchIn (Some ''e1'') (2024, 3, 6) 32400000 None ''a2'' [sample_open_row]
               (sample_session None)))
   \<and> punch_out_after_punch_in
       (snd (handlePunchOut (Some ''e1'') 62100000 None [sample_open_row]
               (sample_session (Some sample_open_row))))
   \<and> snd (handlePunchOut (Some ''e1'') 62100000 None [sample_open_row]
               (sample_session (Some sample_open_row))) = [sample_closed_row]"
proof -
  have i: "punch_out_after_punch_in [sample_open_row]"
    by (simp add: punch_out_after_punch_in_def sample_open_row_def)
  have t: "todayRecord (sample_session (Some sample_open_row)) = Some sample_open_row"
    by (simp add: sample_session_def)
  have n: "\<forall>x \<in> set [sample_open_row]. rec_id x = rec_id sample_open_row \<longrightarrow> punch_in_time x < 62100000"
    by (simp add: sample_open_row_def)
  have c: "snd (handlePunchOut (Some ''e1'') 62100000 None [sample_open_row]
               (sample_session (Some sample_open_row))) = [sample_closed_row]"
    by (simp add: handlePunchOut_store [OF _ t] truthy_id_def sample_punch_out_rows)
  from punch_out_after_punch_in_preserved
         [where db = "[sample_open_row]" and employee = "Some ''e1''" and today = "(2024, 3, 6)"
            and now = 32400000 and fault = None and fresh = "''a2''"
            and s = "sample_session None"]
       punch_out_after_punch_in_preserved
         [where db = "[sample_open_row]" and employee = "Some ''e1''" and now = 62100000
            and fault = None and s = "sample_session (Some sample_open_row)"
            and r = sample_open_row]
       i t n c
  show ?thesis by blast
qed

end
